theory Spec2Isabelle
  imports Complex_Main "HOL-Library.Multiset"
begin

section \<open>JavaScript values and strings\<close>

text \<open>
  The application is a browser program (\<^verbatim>\<open>src/app.js\<close>).  Its strings are modelled as
  \<^typ>\<open>string\<close>, one \<^typ>\<open>char\<close> per code unit below 256; its numbers, where they
  are page identifiers, counters and instants, as \<^typ>\<open>int\<close> (every integer the
  program meets is far inside the range a JavaScript number represents exactly).
  An instant is the number of milliseconds since the epoch: \<^verbatim>\<open>new Date().toISOString()\<close>
  and \<^verbatim>\<open>new Date(text)\<close> convert between that number and its ISO text without loss.
\<close>

text \<open>
  A \<^verbatim>\<open>pageId\<close> is whatever the provider's JSON holds under \<^verbatim>\<open>pageid\<close>: a primitive
  value, or \<^verbatim>\<open>undefined\<close> when the property is missing.
\<close>

datatype jsval = JUndefined | JNull | JBool bool | JNum int | JStr string

text \<open>The operator \<^verbatim>\<open>===\<close> on primitive values.\<close>

fun strict_eq :: "jsval \<Rightarrow> jsval \<Rightarrow> bool" where
  "strict_eq JUndefined JUndefined = True"
| "strict_eq JNull JNull = True"
| "strict_eq (JBool a) (JBool b) = (a = b)"
| "strict_eq (JNum a) (JNum b) = (a = b)"
| "strict_eq (JStr a) (JStr b) = (a = b)"
| "strict_eq _ _ = False"

text \<open>
  White space and line terminators, as \<^verbatim>\<open>String.prototype.trim\<close> and the regular
  expression class \<^verbatim>\<open>\s\<close> know them, among the code units below 256: TAB, LF, VT, FF,
  CR, SPACE and NBSP.
\<close>

definition isWhiteSpace :: "char \<Rightarrow> bool" where
  "isWhiteSpace c = (of_char c \<in> {9, 10, 11, 12, 13, 32, 160 :: nat})"

definition trimStart :: "string \<Rightarrow> string" where
  "trimStart s = dropWhile isWhiteSpace s"

definition trim :: "string \<Rightarrow> string" where
  "trim s = rev (dropWhile isWhiteSpace (rev (dropWhile isWhiteSpace s)))"

text \<open>
  \<^verbatim>\<open>text.split(/\s+/)\<close>: the pieces between the maximal runs of white space.  A run at
  the start or the end of the text leaves an empty piece there, and the empty text splits
  into one empty piece.
\<close>

function split_ws :: "string \<Rightarrow> string list" where
  "split_ws s =
     (let piece = takeWhile (\<lambda>c. \<not> isWhiteSpace c) s;
          rest = dropWhile (\<lambda>c. \<not> isWhiteSpace c) s
      in if rest = [] then [piece]
         else piece # split_ws (dropWhile isWhiteSpace rest))"
  by pat_completeness auto
termination
proof (relation "measure length")
  show "wf (measure length)" by simp
next
  fix s :: string and piece rest
  assume r: "rest = dropWhile (\<lambda>c. \<not> isWhiteSpace c) s" and ne: "rest \<noteq> []"
  from ne obtain c cs where rc: "rest = c # cs" by (cases rest) auto
  have "length (dropWhile isWhiteSpace rest) \<le> length rest"
    by (rule length_dropWhile_le)
  moreover have "isWhiteSpace c"
    using rc r hd_dropWhile[of "\<lambda>c. \<not> isWhiteSpace c" s] by (metis list.sel(1) ne)
  then have "length (dropWhile isWhiteSpace rest) < length rest"
    using rc by (simp add: le_imp_less_Suc length_dropWhile_le)
  moreover have "length rest \<le> length s"
    unfolding r by (rule length_dropWhile_le)
  ultimately show "(dropWhile isWhiteSpace rest, s) \<in> measure length"
    by simp
qed

declare split_ws.simps [simp del]

subsection \<open>Derived fields of an article\<close>

text \<open>\<^verbatim>\<open>WikipediaService.estimateWordCount\<close> and \<^verbatim>\<open>estimateReadingTime\<close>.\<close>

definition estimateWordCount :: "string \<Rightarrow> nat" where
  "estimateWordCount text = length (filter (\<lambda>word. length word > 0) (split_ws text))"

definition estimateReadingTime :: "string \<Rightarrow> nat" where
  "estimateReadingTime text =
     (let wordsPerMinute = 200 :: real;
          words = estimateWordCount text;
          minutes = \<lceil>real words / wordsPerMinute\<rceil>
      in nat minutes)"

text \<open>
  The specification's count, in its own words: the number of white-space-delimited
  non-empty tokens of a text, that is, of the positions where a token starts (a character
  that is not white space, at the start of the text or right after white space).
\<close>

definition tokenStart :: "string \<Rightarrow> nat \<Rightarrow> bool" where
  "tokenStart s i =
     (\<not> isWhiteSpace (s ! i) \<and> (if i = 0 then True else isWhiteSpace (s ! (i - 1))))"

definition tokenCount :: "string \<Rightarrow> nat" where
  "tokenCount s = length (filter (tokenStart s) [0..<length s])"

section \<open>Configuration\<close>

text \<open>\<^verbatim>\<open>CONFIG.STORAGE_KEYS\<close>.\<close>

definition FAVORITES :: string where "FAVORITES = ''rke_favorites''"
definition THEME :: string where "THEME = ''rke_theme''"
definition LAST_ARTICLE :: string where "LAST_ARTICLE = ''rke_lastArticle''"
definition AUTO_FETCH :: string where "AUTO_FETCH = ''rke_autoFetch''"
definition VISIT_COUNT :: string where "VISIT_COUNT = ''rke_visitCount''"

text \<open>\<^verbatim>\<open>CONFIG.CATEGORIES\<close>: the own properties of the object literal, in source order.\<close>

definition CATEGORIES :: "(string \<times> string list) list" where
  "CATEGORIES =
     [(''history'', [''history'', ''historical'', ''ancient'', ''medieval'', ''war'', ''empire'',
                     ''civilization'']),
      (''science'', [''science'', ''physics'', ''chemistry'', ''biology'', ''research'',
                     ''discovery'', ''theory'']),
      (''technology'', [''technology'', ''computer'', ''software'', ''engineering'',
                        ''innovation'', ''digital'']),
      (''art'', [''art'', ''painting'', ''sculpture'', ''artist'', ''museum'', ''culture'',
                 ''creative'']),
      (''geography'', [''geography'', ''country'', ''city'', ''mountain'', ''river'',
                       ''continent'', ''location''])]"

text \<open>
  \<^verbatim>\<open>CONFIG.CATEGORIES\<close> is an object literal, so \<^verbatim>\<open>CONFIG.CATEGORIES[category]\<close> also
  finds what the object inherits from \<^verbatim>\<open>Object.prototype\<close>: for each of the names below
  the lookup yields a function (or, for \<^verbatim>\<open>__proto__\<close>, the prototype object itself),
  which is truthy and has no indexed element.
\<close>

definition objectPrototypeNames :: "string list" where
  "objectPrototypeNames =
     [''constructor'', ''__proto__'', ''hasOwnProperty'', ''isPrototypeOf'',
      ''propertyIsEnumerable'', ''toLocaleString'', ''toString'', ''valueOf'',
      ''__defineGetter__'', ''__defineSetter__'', ''__lookupGetter__'', ''__lookupSetter__'']"

datatype property = Keywords "string list" | Inherited | Absent

definition CATEGORIES_get :: "string \<Rightarrow> property" where
  "CATEGORIES_get category =
     (case map_of CATEGORIES category of
        Some keywords \<Rightarrow> Keywords keywords
      | None \<Rightarrow> if category \<in> set objectPrototypeNames then Inherited else Absent)"

section \<open>Articles\<close>

text \<open>
  The object \<^verbatim>\<open>normalizeArticleData\<close> builds.  A favorite is the same object with the
  property \<^verbatim>\<open>savedAt\<close> added, so \<open>savedAt\<close> is optional here.
\<close>

record article =
  title :: string
  summary :: string
  url :: string
  image :: "string option"
  imageAlt :: string
  pageId :: jsval
  timestamp :: int
  wordCount :: nat
  readingTime :: nat
  savedAt :: "int option"

text \<open>
  The provider's summary object, as far as \<^verbatim>\<open>normalizeArticleData\<close> reads it.  \<open>None\<close> is
  a missing property (or, for the nested ones, a missing parent).
\<close>

record summary_data =
  data_title :: "string option"
  data_extract :: "string option"
  desktop_page :: "string option"
  thumbnail_source :: "string option"
  originalimage_source :: "string option"
  pageid :: jsval

text \<open>
  What the program takes from its host and the model takes as given: percent-encoding and
  the JSON text of an article and of the favorites array.
\<close>

record host =
  encodeURIComponent :: "string \<Rightarrow> string"
  stringifyArticle :: "article \<Rightarrow> string"
  stringifyFavorites :: "article list \<Rightarrow> string"

text \<open>\<^verbatim>\<open>x || d\<close> on an optional string: the empty string is falsy too.\<close>

definition orElse :: "string option \<Rightarrow> string \<Rightarrow> string" where
  "orElse x d = (case x of None \<Rightarrow> d | Some v \<Rightarrow> if v = [] then d else v)"

text \<open>A value in a template literal: \<^verbatim>\<open>undefined\<close> prints as that word.\<close>

definition toText :: "string option \<Rightarrow> string" where
  "toText x = (case x of None \<Rightarrow> ''undefined'' | Some v \<Rightarrow> v)"

definition truthyString :: "string option \<Rightarrow> bool" where
  "truthyString x = (case x of None \<Rightarrow> False | Some v \<Rightarrow> v \<noteq> [])"

definition normalizeArticleData :: "host \<Rightarrow> int \<Rightarrow> summary_data \<Rightarrow> article" where
  "normalizeArticleData h instant data =
     \<lparr> title = orElse (data_title data) ''Unknown Title'',
       summary = orElse (data_extract data) ''No summary available.'',
       url = orElse (desktop_page data)
               (''https://en.wikipedia.org/wiki/'' @ encodeURIComponent h (toText (data_title data))),
       image = (if truthyString (thumbnail_source data) then thumbnail_source data
                else if truthyString (originalimage_source data) then originalimage_source data
                else None),
       imageAlt = ''Image related to '' @ toText (data_title data),
       pageId = pageid data,
       timestamp = instant,
       wordCount = estimateWordCount (orElse (data_extract data) []),
       readingTime = estimateReadingTime (orElse (data_extract data) []),
       savedAt = None \<rparr>"

section \<open>The Wikipedia service\<close>

text \<open>
  Every \<^verbatim>\<open>Error\<close> the program throws carries a message only.  A request is one call of
  \<^verbatim>\<open>fetch\<close>: the random summary, the summary of an encoded title, or a search with
  \<^verbatim>\<open>srsearch\<close> and \<^verbatim>\<open>srlimit\<close>.
\<close>

datatype error = Error (message: string)

datatype request = RandomSummary | Summary string | Search string nat

text \<open>
  What \<^verbatim>\<open>fetch\<close> gives back: the promise rejects, or it resolves to a response with
  its \<^verbatim>\<open>ok\<close> flag and, where \<^verbatim>\<open>response.json()\<close> resolves, the parsed body.
\<close>

datatype 'a response = Rejected | Response bool "'a option"

record search_result =
  result_title :: string

text \<open>
  The world as one intent meets it: the provider's answers, the values of the (at most two)
  calls of \<^verbatim>\<open>Math.random()\<close>, and the clock.  The body of a search answer is the value
  of \<^verbatim>\<open>data.query?.search\<close>, \<open>None\<close> when it is missing.
\<close>

record world =
  respondRandom :: "summary_data response"
  respondSummary :: "string \<Rightarrow> summary_data response"
  respondSearch :: "string \<Rightarrow> nat \<Rightarrow> search_result list option response"
  random1 :: real
  random2 :: real
  now :: int

text \<open>
  The service's functions return their result (\<open>Inl\<close> the error thrown) together with the
  requests they sent, in order.
\<close>

definition WikipediaService_fetchRandomArticle ::
    "host \<Rightarrow> world \<Rightarrow> (error + article) \<times> request list" where
  "WikipediaService_fetchRandomArticle h w =
     ((case respondRandom w of
         Rejected \<Rightarrow> Inl (Error ''Failed to fetch random article'')
       | Response ok body \<Rightarrow>
           if \<not> ok then Inl (Error ''Failed to fetch random article'')
           else (case body of
                   None \<Rightarrow> Inl (Error ''Failed to fetch random article'')
                 | Some data \<Rightarrow> Inr (normalizeArticleData h (now w) data))),
      [RandomSummary])"

definition fetchArticleByTitle ::
    "host \<Rightarrow> world \<Rightarrow> string \<Rightarrow> (error + article) \<times> request list" where
  "fetchArticleByTitle h w title' =
     (let encodedTitle = encodeURIComponent h title' in
      ((case respondSummary w encodedTitle of
          Rejected \<Rightarrow> Inl (Error ''Failed to fetch article'')
        | Response ok body \<Rightarrow>
            if \<not> ok then Inl (Error ''Failed to fetch article'')
            else (case body of
                    None \<Rightarrow> Inl (Error ''Failed to fetch article'')
                  | Some data \<Rightarrow> Inr (normalizeArticleData h (now w) data))),
       [Summary encodedTitle]))"

definition searchArticles ::
    "world \<Rightarrow> string \<Rightarrow> nat \<Rightarrow> (error + search_result list) \<times> request list" where
  "searchArticles w query limit =
     ((case respondSearch w query limit of
         Rejected \<Rightarrow> Inl (Error ''Failed to search articles'')
       | Response ok body \<Rightarrow>
           if \<not> ok then Inl (Error ''Failed to search articles'')
           else (case body of
                   None \<Rightarrow> Inl (Error ''Failed to search articles'')
                 | Some found \<Rightarrow> Inr (case found of None \<Rightarrow> [] | Some results \<Rightarrow> results))),
      [Search query limit])"

text \<open>
  \<^verbatim>\<open>xs[Math.floor(r * n)]\<close> for a value \<open>r\<close> of \<^verbatim>\<open>Math.random()\<close>.  An index out of
  range reads \<^verbatim>\<open>undefined\<close>, which is \<open>None\<close> here.
\<close>

definition randomIndex :: "real \<Rightarrow> nat \<Rightarrow> int" where
  "randomIndex r n = \<lfloor>r * real n\<rfloor>"

definition element :: "'a list \<Rightarrow> int \<Rightarrow> 'a option" where
  "element xs i = (if 0 \<le> i \<and> i < int (length xs) then Some (xs ! nat i) else None)"

text \<open>
  The keyword \<^verbatim>\<open>fetchCategoryArticle\<close> searches for.  For an inherited property the
  value of \<^verbatim>\<open>keywords[...]\<close> is \<^verbatim>\<open>undefined\<close> whatever the index, and the search
  parameter \<^verbatim>\<open>srsearch\<close> then is the text \<^verbatim>\<open>undefined\<close>.
\<close>

definition randomKeyword :: "world \<Rightarrow> string \<Rightarrow> string" where
  "randomKeyword w category =
     (let keywords = (case CATEGORIES_get category of
                        Keywords ks \<Rightarrow> Some ks
                      | Absent \<Rightarrow> Some [category]
                      | Inherited \<Rightarrow> None)
      in case keywords of
           None \<Rightarrow> ''undefined''
         | Some ks \<Rightarrow> toText (element ks (randomIndex (random1 w) (length ks))))"

text \<open>
  The \<^verbatim>\<open>try\<close> block of \<^verbatim>\<open>fetchCategoryArticle\<close>, and the function with its \<^verbatim>\<open>catch\<close>,
  which replaces whatever was thrown in the block.  Reading \<^verbatim>\<open>title\<close> of an
  \<^verbatim>\<open>undefined\<close> result throws a \<^verbatim>\<open>TypeError\<close>.
\<close>

definition fetchCategoryArticle_try ::
    "host \<Rightarrow> world \<Rightarrow> string \<Rightarrow> (error + article) \<times> request list" where
  "fetchCategoryArticle_try h w category =
     (let keyword = randomKeyword w category;
          (found, sent) = searchArticles w keyword 20
      in case found of
           Inl e \<Rightarrow> (Inl e, sent)
         | Inr searchResults \<Rightarrow>
             if length searchResults = 0
             then (Inl (Error ''No articles found for this category''), sent)
             else (case element searchResults
                          (randomIndex (random2 w) (min 5 (length searchResults))) of
                     None \<Rightarrow> (Inl (Error ''TypeError''), sent)
                   | Some randomResult \<Rightarrow>
                       (let (fetched, sent') = fetchArticleByTitle h w (result_title randomResult)
                        in (fetched, sent @ sent'))))"

definition fetchCategoryArticle ::
    "host \<Rightarrow> world \<Rightarrow> string \<Rightarrow> (error + article) \<times> request list" where
  "fetchCategoryArticle h w category =
     (case fetchCategoryArticle_try h w category of
        (Inl e, sent) \<Rightarrow> (Inl (Error ''Failed to fetch category article''), sent)
      | (Inr article, sent) \<Rightarrow> (Inr article, sent))"

section \<open>Numbers in strings, and loose equality\<close>

text \<open>The value of a digit in a radix, \<open>None\<close> for any other character.\<close>

definition digitValue :: "nat \<Rightarrow> char \<Rightarrow> nat option" where
  "digitValue radix c =
     (let n = of_char c :: nat;
          v = (if 48 \<le> n \<and> n \<le> 57 then Some (n - 48)
               else if 97 \<le> n \<and> n \<le> 122 then Some (n - 87)
               else if 65 \<le> n \<and> n \<le> 90 then Some (n - 55)
               else None)
      in case v of None \<Rightarrow> None | Some d \<Rightarrow> if d < radix then Some d else None)"

definition isDigit :: "nat \<Rightarrow> char \<Rightarrow> bool" where
  "isDigit radix c = (digitValue radix c \<noteq> None)"

definition digitsValue :: "nat \<Rightarrow> string \<Rightarrow> nat" where
  "digitsValue radix ds = foldl (\<lambda>acc c. acc * radix + the (digitValue radix c)) 0 ds"

text \<open>A non-empty run of digits and nothing else.\<close>

definition allDigits :: "nat \<Rightarrow> string \<Rightarrow> nat option" where
  "allDigits radix ds =
     (if ds \<noteq> [] \<and> list_all (isDigit radix) ds then Some (digitsValue radix ds) else None)"

text \<open>An optional sign in front of a text: the sign's factor and the text after it.\<close>

definition splitSign :: "string \<Rightarrow> int \<times> string" where
  "splitSign s =
     (case s of
        [] \<Rightarrow> (1, [])
      | c # cs \<Rightarrow> if c = CHR ''-'' then (- 1, cs) else if c = CHR ''+'' then (1, cs) else (1, s))"

text \<open>
  The exponent part of a decimal literal: nothing, or \<^verbatim>\<open>e\<close> or \<^verbatim>\<open>E\<close>, an optional sign
  and digits.  \<open>None\<close> when the text is neither.
\<close>

definition exponentPart :: "string \<Rightarrow> int option" where
  "exponentPart s =
     (case s of
        [] \<Rightarrow> Some 0
      | c # cs \<Rightarrow>
          if c = CHR ''e'' \<or> c = CHR ''E''
          then (let (sign, ds) = splitSign cs
                in case allDigits 10 ds of None \<Rightarrow> None | Some v \<Rightarrow> Some (sign * int v))
          else None)"

text \<open>
  An unsigned decimal literal (digits, an optional fraction, an optional exponent) as the
  integer it denotes; \<open>None\<close> when the text is no such literal or denotes no integer.
\<close>

definition unsignedDecimal :: "string \<Rightarrow> int option" where
  "unsignedDecimal s =
     (let ip = takeWhile (isDigit 10) s;
          r1 = dropWhile (isDigit 10) s;
          dot = (r1 \<noteq> [] \<and> hd r1 = CHR ''.'');
          fp = (if dot then takeWhile (isDigit 10) (tl r1) else []);
          r2 = (if dot then dropWhile (isDigit 10) (tl r1) else r1)
      in if ip = [] \<and> fp = [] then None
         else (case exponentPart r2 of
                 None \<Rightarrow> None
               | Some e \<Rightarrow>
                   (let m = digitsValue 10 (ip @ fp);
                        k = e - int (length fp)
                    in if 0 \<le> k then Some (int (m * 10 ^ nat k))
                       else if m mod 10 ^ nat (- k) = 0 then Some (int (m div 10 ^ nat (- k)))
                       else None)))"

text \<open>
  \<^verbatim>\<open>Number(text)\<close>, as loose equality applies it to a string: white space is trimmed,
  the empty text is 0, a prefix \<^verbatim>\<open>0x\<close>, \<^verbatim>\<open>0o\<close> or \<^verbatim>\<open>0b\<close> selects the radix, anything
  else is a signed decimal literal.  The result is \<open>None\<close> where JavaScript's is
  \<^verbatim>\<open>NaN\<close>, an infinity or not an integer: no such number equals an integer.
\<close>

definition StringToNumber :: "string \<Rightarrow> int option" where
  "StringToNumber s =
     (let t = trim s in
      if t = [] then Some 0
      else if take 2 t = ''0x'' \<or> take 2 t = ''0X'' then map_option int (allDigits 16 (drop 2 t))
      else if take 2 t = ''0o'' \<or> take 2 t = ''0O'' then map_option int (allDigits 8 (drop 2 t))
      else if take 2 t = ''0b'' \<or> take 2 t = ''0B'' then map_option int (allDigits 2 (drop 2 t))
      else (let (sign, body) = splitSign t
            in map_option (\<lambda>v. sign * v) (unsignedDecimal body)))"

definition boolToNumber :: "bool \<Rightarrow> int" where
  "boolToNumber b = (if b then 1 else 0)"

text \<open>
  The operator \<^verbatim>\<open>==\<close> on primitive values: strict equality within a type,
  \<^verbatim>\<open>null == undefined\<close>, a string against a number through \<^verbatim>\<open>Number\<close>, and a boolean as
  the number 0 or 1.
\<close>

fun loose_eq :: "jsval \<Rightarrow> jsval \<Rightarrow> bool" where
  "loose_eq JUndefined JUndefined = True"
| "loose_eq JNull JNull = True"
| "loose_eq JUndefined JNull = True"
| "loose_eq JNull JUndefined = True"
| "loose_eq (JBool a) (JBool b) = (a = b)"
| "loose_eq (JNum a) (JNum b) = (a = b)"
| "loose_eq (JStr a) (JStr b) = (a = b)"
| "loose_eq (JNum a) (JStr b) = (StringToNumber b = Some a)"
| "loose_eq (JStr a) (JNum b) = (StringToNumber a = Some b)"
| "loose_eq (JBool a) (JNum b) = (boolToNumber a = b)"
| "loose_eq (JNum a) (JBool b) = (a = boolToNumber b)"
| "loose_eq (JBool a) (JStr b) = (StringToNumber b = Some (boolToNumber a))"
| "loose_eq (JStr a) (JBool b) = (StringToNumber a = Some (boolToNumber b))"
| "loose_eq _ _ = False"

text \<open>
  \<^verbatim>\<open>parseInt(text)\<close> with no radix: leading white space and a sign are skipped, a prefix
  \<^verbatim>\<open>0x\<close> selects radix 16, and the longest run of digits is read; \<open>None\<close> is \<^verbatim>\<open>NaN\<close>.
\<close>

definition parseInt :: "string \<Rightarrow> int option" where
  "parseInt s =
     (let (sign, t) = splitSign (trimStart s);
          hex = (take 2 t = ''0x'' \<or> take 2 t = ''0X'');
          radix = (if hex then 16 else 10);
          z = takeWhile (isDigit radix) (if hex then drop 2 t else t)
      in if z = [] then None else Some (sign * int (digitsValue radix z)))"

text \<open>The decimal text of an integer, as \<^verbatim>\<open>String(n)\<close> writes it.\<close>

fun natToString :: "nat \<Rightarrow> string" where
  "natToString n =
     (if n < 10 then [char_of (48 + n)]
      else natToString (n div 10) @ [char_of (48 + n mod 10)])"

declare natToString.simps [simp del]

definition intToString :: "int \<Rightarrow> string" where
  "intToString i = (if i < 0 then CHR ''-'' # natToString (nat (- i)) else natToString (nat i))"

section \<open>The application state and its store\<close>

text \<open>\<^verbatim>\<open>localStorage\<close>: text under text keys; \<^verbatim>\<open>getItem\<close> of a missing key is \<^verbatim>\<open>null\<close>.\<close>

type_synonym storage = "string \<rightharpoonup> string"

text \<open>What \<^verbatim>\<open>JSON.parse\<close> can return, and whether \<^verbatim>\<open>||\<close> takes it.\<close>

datatype json =
    JsonNull
  | JsonBool bool
  | JsonNum int
  | JsonStr string
  | JsonArr "json list"
  | JsonObj "(string \<times> json) list"

fun truthy :: "json \<Rightarrow> bool" where
  "truthy JsonNull = False"
| "truthy (JsonBool b) = b"
| "truthy (JsonNum n) = (n \<noteq> 0)"
| "truthy (JsonStr s) = (s \<noteq> [])"
| "truthy (JsonArr _) = True"
| "truthy (JsonObj _) = True"

text \<open>
  \<^verbatim>\<open>JSON.parse(localStorage.getItem(key))\<close>.  The parser is the host's and is a parameter,
  \<open>None\<close> where it throws a \<^verbatim>\<open>SyntaxError\<close>; a missing item is \<^verbatim>\<open>null\<close>, which
  \<^verbatim>\<open>JSON.parse\<close> reads as the text \<^verbatim>\<open>null\<close> and parses to \<^verbatim>\<open>null\<close>.
\<close>

definition parseItem :: "(string \<Rightarrow> json option) \<Rightarrow> storage \<Rightarrow> string \<Rightarrow> json option" where
  "parseItem JSON_parse store key =
     (case store key of None \<Rightarrow> Some JsonNull | Some text \<Rightarrow> JSON_parse text)"

text \<open>\<^verbatim>\<open>AppState.loadFavorites\<close>: the \<^verbatim>\<open>catch\<close> answers a parse that throws.\<close>

definition loadFavorites :: "(string \<Rightarrow> json option) \<Rightarrow> storage \<Rightarrow> json" where
  "loadFavorites JSON_parse store =
     (case parseItem JSON_parse store FAVORITES of
        Some v \<Rightarrow> if truthy v then v else JsonArr []
      | None \<Rightarrow> JsonArr [])"

definition loadTheme :: "storage \<Rightarrow> string" where
  "loadTheme store = orElse (store THEME) ''light''"

definition loadAutoFetch :: "storage \<Rightarrow> bool" where
  "loadAutoFetch store = (store AUTO_FETCH = Some ''true'')"

text \<open>
  \<^verbatim>\<open>AppState.loadVisitCount\<close> returns the new count and writes it back.  A missing item
  is \<^verbatim>\<open>null\<close>, which \<^verbatim>\<open>parseInt\<close> reads as the text \<^verbatim>\<open>null\<close>; \<^verbatim>\<open>NaN\<close> and 0 are
  both falsy for \<^verbatim>\<open>|| 0\<close>.
\<close>

definition loadVisitCount :: "storage \<Rightarrow> int \<times> storage" where
  "loadVisitCount store =
     (let count = (case parseInt (case store VISIT_COUNT of None \<Rightarrow> ''null'' | Some text \<Rightarrow> text) of
                     None \<Rightarrow> 0
                   | Some n \<Rightarrow> n);
          newCount = count + 1
      in (newCount, store(VISIT_COUNT \<mapsto> intToString newCount)))"

text \<open>
  The state of the running application: the fields of \<^verbatim>\<open>AppState\<close>, the store, what the
  controller has written into the document, and the requests sent so far.  Timers are not
  modelled: the card that \<^verbatim>\<open>displayArticle\<close> hides and shows again after 100 ms is
  taken as shown, and a status message stays as written.
\<close>

record state =
  currentArticle :: "article option"
  favorites :: "article list"
  theme :: string
  isLoading :: bool
  autoFetchEnabled :: bool
  visitCount :: int
  selectedCategory :: "string option"
  storage :: storage
  dataTheme :: string
  activeCategoryButton :: "string option"
  searchInput :: string
  skeletonDisplayed :: bool
  cardVisible :: bool
  errorVisible :: bool
  errorMessage :: string
  shownArticle :: "article option"
  favoritedClass :: bool
  favoriteText :: string
  favoritesCount :: nat
  favoritesCountVisible :: bool
  modalVisible :: bool
  statusMessage :: string
  statusType :: string
  requests :: "request list"

definition saveFavorites :: "host \<Rightarrow> state \<Rightarrow> state" where
  "saveFavorites h s = s\<lparr>storage := (storage s)(FAVORITES \<mapsto> stringifyFavorites h (favorites s))\<rparr>"

definition saveTheme :: "state \<Rightarrow> state" where
  "saveTheme s = s\<lparr>storage := (storage s)(THEME \<mapsto> theme s)\<rparr>"

definition saveLastArticle :: "host \<Rightarrow> state \<Rightarrow> state" where
  "saveLastArticle h s =
     (case currentArticle s of
        None \<Rightarrow> s
      | Some a \<Rightarrow> s\<lparr>storage := (storage s)(LAST_ARTICLE \<mapsto> stringifyArticle h a)\<rparr>)"

section \<open>The controller\<close>

definition showStatus :: "string \<Rightarrow> string \<Rightarrow> state \<Rightarrow> state" where
  "showStatus msg type s = s\<lparr>statusMessage := msg, statusType := type\<rparr>"

definition showSkeleton :: "state \<Rightarrow> state" where
  "showSkeleton s = s\<lparr>skeletonDisplayed := True, cardVisible := False, errorVisible := False\<rparr>"

definition showError :: "string \<Rightarrow> state \<Rightarrow> state" where
  "showError msg s =
     s\<lparr>skeletonDisplayed := False, cardVisible := False, errorVisible := True,
       errorMessage := msg\<rparr>"

definition updateFavoriteButton :: "state \<Rightarrow> state" where
  "updateFavoriteButton s =
     (case currentArticle s of
        None \<Rightarrow> s
      | Some cur \<Rightarrow>
          (let isFavorited = list_ex (\<lambda>fav. strict_eq (pageId fav) (pageId cur)) (favorites s)
           in s\<lparr>favoritedClass := isFavorited,
                favoriteText := (if isFavorited then ''Saved'' else ''Save'')\<rparr>))"

definition updateFavoritesCount :: "state \<Rightarrow> state" where
  "updateFavoritesCount s =
     (let count = length (favorites s)
      in s\<lparr>favoritesCount := count, favoritesCountVisible := (count > 0)\<rparr>)"

definition closeFavoritesModal :: "state \<Rightarrow> state" where
  "closeFavoritesModal s = s\<lparr>modalVisible := False\<rparr>"

text \<open>
  \<^verbatim>\<open>Array.prototype.sort\<close> is stable: an insertion sort that puts an element in front of
  the first one it does not compare greater than.  The comparator of
  \<^verbatim>\<open>renderFavoritesList\<close> is \<^verbatim>\<open>new Date(b.savedAt) - new Date(a.savedAt)\<close>, which is
  \<^verbatim>\<open>NaN\<close> when a date is missing, and \<^verbatim>\<open>sort\<close> reads \<^verbatim>\<open>NaN\<close> as 0.
\<close>

fun insertBy :: "('a \<Rightarrow> 'a \<Rightarrow> int) \<Rightarrow> 'a \<Rightarrow> 'a list \<Rightarrow> 'a list" where
  "insertBy cmp x [] = [x]"
| "insertBy cmp x (y # ys) = (if cmp x y \<le> 0 then x # y # ys else y # insertBy cmp x ys)"

definition sortBy :: "('a \<Rightarrow> 'a \<Rightarrow> int) \<Rightarrow> 'a list \<Rightarrow> 'a list" where
  "sortBy cmp xs = foldr (insertBy cmp) xs []"

definition bySavedAtDescending :: "article \<Rightarrow> article \<Rightarrow> int" where
  "bySavedAtDescending a b =
     (case (savedAt b, savedAt a) of (Some tb, Some ta) \<Rightarrow> tb - ta | _ \<Rightarrow> 0)"

text \<open>
  \<^verbatim>\<open>renderFavoritesList\<close> writes the list's HTML, which is not modelled, and sorts
  \<^verbatim>\<open>this.state.favorites\<close> in place on the way.
\<close>

definition renderFavoritesList :: "state \<Rightarrow> state" where
  "renderFavoritesList s =
     (if length (favorites s) = 0 then s
      else s\<lparr>favorites := sortBy bySavedAtDescending (favorites s)\<rparr>)"

definition toggleFavoritesModal :: "state \<Rightarrow> state" where
  "toggleFavoritesModal s =
     (let s1 = renderFavoritesList (s\<lparr>modalVisible := \<not> modalVisible s\<rparr>)
      in if modalVisible s1 then s1 else closeFavoritesModal s1)"

definition toggleTheme :: "state \<Rightarrow> state" where
  "toggleTheme s =
     (let s1 = s\<lparr>theme := (if theme s = ''light'' then ''dark'' else ''light'')\<rparr>;
          s2 = saveTheme (s1\<lparr>dataTheme := theme s1\<rparr>)
      in showStatus (''Switched to '' @ theme s2 @ '' theme'') ''info'' s2)"

definition clearCategorySelection :: "state \<Rightarrow> state" where
  "clearCategorySelection s = s\<lparr>selectedCategory := None, activeCategoryButton := None\<rparr>"

definition displayArticle :: "host \<Rightarrow> article \<Rightarrow> state \<Rightarrow> state" where
  "displayArticle h a s =
     (let s1 = saveLastArticle h (s\<lparr>currentArticle := Some a\<rparr>);
          s2 = s1\<lparr>skeletonDisplayed := False, errorVisible := False, shownArticle := Some a\<rparr>;
          s3 = updateFavoriteButton s2
      in s3\<lparr>cardVisible := True\<rparr>)"

text \<open>A title between double quotes, as the status messages show it.\<close>

definition quoted :: "string \<Rightarrow> string" where
  "quoted t = CHR 0x22 # t @ [CHR 0x22]"

text \<open>The \<^verbatim>\<open>catch\<close> blocks of the three fetching handlers.\<close>

definition caught :: "string \<Rightarrow> error \<Rightarrow> state \<Rightarrow> state" where
  "caught status e s = showStatus status ''error'' (showError (message e) s)"

definition sent :: "request list \<Rightarrow> state \<Rightarrow> state" where
  "sent rs s = s\<lparr>requests := requests s @ rs\<rparr>"

text \<open>\<^verbatim>\<open>UIController.handleSearch\<close>; the query is the value of the search input.\<close>

definition handleSearch :: "host \<Rightarrow> world \<Rightarrow> state \<Rightarrow> state" where
  "handleSearch h w s =
     (let query = trim (searchInput s) in
      if query = [] then s
      else
        (let s1 = showStatus ''Searching Wikipedia...'' ''info''
                    (showSkeleton (clearCategorySelection s));
             (found, rs) = searchArticles w query 1;
             s2 = sent rs s1
         in case found of
              Inl e \<Rightarrow> caught ''Search failed - try another term'' e s2
            | Inr searchResults \<Rightarrow>
                (case searchResults of
                   [] \<Rightarrow> caught ''Search failed - try another term'' (Error ''No results found'') s2
                 | first # _ \<Rightarrow>
                     (let (fetched, rs') = fetchArticleByTitle h w (result_title first);
                          s3 = sent rs' s2
                      in case fetched of
                           Inl e \<Rightarrow> caught ''Search failed - try another term'' e s3
                         | Inr a \<Rightarrow>
                             (showStatus (''Found article: '' @ quoted (title a)) ''info''
                                (displayArticle h a s3))\<lparr>searchInput := []\<rparr>))))"

text \<open>
  \<^verbatim>\<open>UIController.handleCategoryClick\<close>, for the button that carries the category.
\<close>

definition handleCategoryClick :: "host \<Rightarrow> world \<Rightarrow> string \<Rightarrow> state \<Rightarrow> state" where
  "handleCategoryClick h w category s =
     (let s1 = s\<lparr>selectedCategory := Some category, activeCategoryButton := Some category\<rparr>;
          s2 = showStatus (''Searching '' @ category @ '' articles...'') ''info'' (showSkeleton s1);
          (fetched, rs) = fetchCategoryArticle h w category;
          s3 = sent rs s2
      in case fetched of
           Inl e \<Rightarrow> caught (''Failed to load '' @ category @ '' article'') e s3
         | Inr a \<Rightarrow>
             showStatus (''Found '' @ category @ '' article: '' @ quoted (title a)) ''info''
               (displayArticle h a s3))"

text \<open>
  \<^verbatim>\<open>UIController.fetchRandomArticle\<close>, the handler of the "next" intent.  The test
  \<^verbatim>\<open>if (this.state.selectedCategory)\<close> takes a non-empty string.
\<close>

definition fetchRandomArticle :: "host \<Rightarrow> world \<Rightarrow> state \<Rightarrow> state" where
  "fetchRandomArticle h w s =
     (let s1 = showSkeleton s in
      if truthyString (selectedCategory s1)
      then
        (let category = toText (selectedCategory s1);
             s2 = showStatus (''Fetching another '' @ category @ '' article...'') ''info'' s1;
             (fetched, rs) = fetchCategoryArticle h w category;
             s3 = sent rs s2
         in case fetched of
              Inl e \<Rightarrow> caught ''Failed to fetch article'' e s3
            | Inr a \<Rightarrow>
                displayArticle h a
                  (showStatus (''Found another '' @ category @ '' article: '' @ quoted (title a))
                     ''info'' s3))
      else
        (let s2 = showStatus ''Fetching random article...'' ''info'' s1;
             (fetched, rs) = WikipediaService_fetchRandomArticle h w;
             s3 = sent rs s2
         in case fetched of
              Inl e \<Rightarrow> caught ''Failed to fetch article'' e s3
            | Inr a \<Rightarrow>
                displayArticle h a
                  (showStatus ''Fetched random article from Wikipedia'' ''info'' s3)))"

text \<open>
  \<^verbatim>\<open>findIndex\<close> returns \<open>-1\<close> when no element passes; \<^verbatim>\<open>splice(i, 1)\<close> removes the
  element at \<open>i\<close>.
\<close>

fun findIndex :: "('a \<Rightarrow> bool) \<Rightarrow> 'a list \<Rightarrow> int" where
  "findIndex p [] = - 1"
| "findIndex p (x # xs) =
     (if p x then 0 else (let i = findIndex p xs in if i \<ge> 0 then i + 1 else - 1))"

definition splice1 :: "int \<Rightarrow> 'a list \<Rightarrow> 'a list" where
  "splice1 i xs = take (nat i) xs @ drop (nat i + 1) xs"

text \<open>\<^verbatim>\<open>UIController.toggleFavorite\<close>, at the instant the clock shows.\<close>

definition toggleFavorite :: "host \<Rightarrow> int \<Rightarrow> state \<Rightarrow> state" where
  "toggleFavorite h instant s =
     (case currentArticle s of
        None \<Rightarrow> s
      | Some cur \<Rightarrow>
          (let existingIndex = findIndex (\<lambda>fav. strict_eq (pageId fav) (pageId cur)) (favorites s);
               s1 = (if existingIndex \<ge> 0
                     then showStatus ''Removed from favorites'' ''info''
                            (s\<lparr>favorites := splice1 existingIndex (favorites s)\<rparr>)
                     else showStatus ''Added to favorites'' ''info''
                            (s\<lparr>favorites := favorites s @ [cur\<lparr>savedAt := Some instant\<rparr>]\<rparr>))
           in updateFavoritesCount (updateFavoriteButton (saveFavorites h s1))))"

text \<open>\<^verbatim>\<open>UIController.openFavorite\<close> and \<^verbatim>\<open>removeFavorite\<close>.\<close>

definition openFavorite :: "host \<Rightarrow> jsval \<Rightarrow> state \<Rightarrow> state" where
  "openFavorite h pageId' s =
     (case find (\<lambda>fav. loose_eq (pageId fav) pageId') (favorites s) of
        None \<Rightarrow> s
      | Some a \<Rightarrow>
          showStatus (''Opened: '' @ quoted (title a)) ''info''
            (closeFavoritesModal (displayArticle h a s)))"

definition removeFavorite :: "host \<Rightarrow> jsval \<Rightarrow> state \<Rightarrow> state" where
  "removeFavorite h pageId' s =
     (let s1 = s\<lparr>favorites := filter (\<lambda>fav. \<not> loose_eq (pageId fav) pageId') (favorites s)\<rparr>;
          s2 = saveFavorites h s1;
          s3 = updateFavoritesCount s2;
          s4 = renderFavoritesList s3;
          s5 = updateFavoriteButton s4
      in showStatus ''Removed from favorites'' ''info'' s5)"

section \<open>Intents\<close>

text \<open>
  What the user can do, each with the world it meets: the handlers that
  \<^verbatim>\<open>bindEvents\<close> attaches and the two the rendered list calls.  A search submits the
  text typed into the input; a click on the logo clears the category.
\<close>

datatype intent =
    Next world
  | SubmitSearch string world
  | CategoryClick string world
  | LogoClick
  | ToggleFavorite int
  | RemoveFavorite jsval
  | OpenFavorite jsval
  | ToggleFavoritesModal
  | ToggleTheme

fun handle :: "host \<Rightarrow> intent \<Rightarrow> state \<Rightarrow> state" where
  "handle h (Next w) s = fetchRandomArticle h w s"
| "handle h (SubmitSearch text w) s = handleSearch h w (s\<lparr>searchInput := text\<rparr>)"
| "handle h (CategoryClick category w) s = handleCategoryClick h w category s"
| "handle h LogoClick s = showStatus ''Switched to random mode'' ''info'' (clearCategorySelection s)"
| "handle h (ToggleFavorite instant) s = toggleFavorite h instant s"
| "handle h (RemoveFavorite p) s = removeFavorite h p s"
| "handle h (OpenFavorite p) s = openFavorite h p s"
| "handle h ToggleFavoritesModal s = toggleFavoritesModal s"
| "handle h ToggleTheme s = toggleTheme s"

fun run :: "host \<Rightarrow> intent list \<Rightarrow> state \<Rightarrow> state" where
  "run h [] s = s"
| "run h (i # is) s = run h is (handle h i s)"

section \<open>Properties of states and traces\<close>

text \<open>
  No two favorites have the same \<^verbatim>\<open>pageId\<close>, by the equality \<^verbatim>\<open>toggleFavorite\<close>
  looks a favorite up with.
\<close>

fun uniquePageIds :: "article list \<Rightarrow> bool" where
  "uniquePageIds [] = True"
| "uniquePageIds (fav # favs) =
     (\<not> list_ex (\<lambda>other. strict_eq (pageId other) (pageId fav)) favs \<and> uniquePageIds favs)"

text \<open>The favorites that carry the \<^verbatim>\<open>pageId\<close> of an article.\<close>

definition entriesFor :: "article \<Rightarrow> article list \<Rightarrow> article list" where
  "entriesFor a favs = filter (\<lambda>fav. strict_eq (pageId fav) (pageId a)) favs"

text \<open>
  The requests of the category path: a search with limit 20 and the summary of a title.
  The plain random path sends \<open>RandomSummary\<close>.
\<close>

fun categoryPath :: "request \<Rightarrow> bool" where
  "categoryPath (Search keyword limit) = (limit = 20)"
| "categoryPath (Summary encodedTitle) = True"
| "categoryPath RandomSummary = False"

text \<open>
  The intents that leave the selected category alone: all but a click on a category or on
  the logo, and a search with a query (which calls \<^verbatim>\<open>clearCategorySelection\<close>).
\<close>

fun keepsCategory :: "intent \<Rightarrow> bool" where
  "keepsCategory (SubmitSearch query w) = (trim query = [])"
| "keepsCategory (CategoryClick category w) = False"
| "keepsCategory LogoClick = False"
| "keepsCategory _ = True"

text \<open>
  The one call of the provider that the "next" intent makes: \<^verbatim>\<open>fetchCategoryArticle\<close>
  when a category is selected, the random summary otherwise.
\<close>

definition articleRequest :: "host \<Rightarrow> world \<Rightarrow> state \<Rightarrow> (error + article) \<times> request list" where
  "articleRequest h w s =
     (if truthyString (selectedCategory s)
      then fetchCategoryArticle h w (toText (selectedCategory s))
      else WikipediaService_fetchRandomArticle h w)"

section \<open>Example inputs\<close>

definition exampleHost :: host where
  "exampleHost =
     \<lparr> encodeURIComponent = (\<lambda>t. t),
       stringifyArticle = (\<lambda>a. title a),
       stringifyFavorites = (\<lambda>favs. concat (map title favs)) \<rparr>"

definition exampleArticle :: "jsval \<Rightarrow> article" where
  "exampleArticle p =
     \<lparr> title = ''Ada Lovelace'', summary = ''English mathematician'',
       url = ''https://en.wikipedia.org/wiki/Ada_Lovelace'', image = None,
       imageAlt = ''Image related to Ada Lovelace'', pageId = p, timestamp = 0,
       wordCount = 2, readingTime = 1, savedAt = None \<rparr>"

definition exampleFavorite :: "jsval \<Rightarrow> int \<Rightarrow> article" where
  "exampleFavorite p t = (exampleArticle p)\<lparr>savedAt := Some t\<rparr>"

definition exampleState :: "article option \<Rightarrow> article list \<Rightarrow> state" where
  "exampleState cur favs =
     \<lparr> currentArticle = cur, favorites = favs, theme = ''light'', isLoading = False,
       autoFetchEnabled = False, visitCount = 1, selectedCategory = None,
       storage = Map.empty, dataTheme = ''light'', activeCategoryButton = None,
       searchInput = [], skeletonDisplayed = True, cardVisible = False, errorVisible = False,
       errorMessage = [], shownArticle = None, favoritedClass = False, favoriteText = ''Save'',
       favoritesCount = length favs, favoritesCountVisible = (length favs > 0),
       modalVisible = False, statusMessage = [], statusType = ''info'', requests = [] \<rparr>"

definition exampleData :: summary_data where
  "exampleData =
     \<lparr> data_title = Some ''Ada Lovelace'', data_extract = Some ''English mathematician'',
       desktop_page = None, thumbnail_source = None, originalimage_source = None,
       pageid = JNum 974 \<rparr>"

definition exampleResults :: "nat \<Rightarrow> search_result list" where
  "exampleResults n = map (\<lambda>i. \<lparr> result_title = ''Result '' @ natToString i \<rparr>) [0..<n]"

text \<open>
  A world where every summary request succeeds and every search finds the given results,
  and one where nothing answers.
\<close>

definition exampleWorld :: "search_result list \<Rightarrow> real \<Rightarrow> real \<Rightarrow> world" where
  "exampleWorld results r1 r2 =
     \<lparr> respondRandom = Response True (Some exampleData),
       respondSummary = (\<lambda>encodedTitle. Response True (Some exampleData)),
       respondSearch = (\<lambda>query limit. Response True (Some (Some results))),
       random1 = r1, random2 = r2, now = 1000 \<rparr>"

definition offlineWorld :: world where
  "offlineWorld =
     \<lparr> respondRandom = Rejected,
       respondSummary = (\<lambda>encodedTitle. Rejected),
       respondSearch = (\<lambda>query limit. Rejected),
       random1 = 0, random2 = 0, now = 1000 \<rparr>"

section \<open>Lists\<close>


lemma strict_eq_iff: "strict_eq a b = (a = b)"
  by (cases a; cases b) simp_all

lemma uniquePageIds_distinct: "uniquePageIds favs = distinct (map pageId favs)"
  by (induction favs) (auto simp: list_ex_iff strict_eq_iff image_iff)

lemma findIndex_neg: "(findIndex p xs < 0) = (\<forall>x \<in> set xs. \<not> p x)"
  by (induction xs) (auto simp: Let_def)

lemma findIndex_range: "findIndex p xs \<ge> 0 \<Longrightarrow> nat (findIndex p xs) < length xs"
  by (induction xs) (auto simp: Let_def split: if_splits)

lemma findIndex_ge_m1: "findIndex p xs \<ge> - 1"
  by (induction xs) (auto simp: Let_def)

lemma findIndex_hit: "findIndex p xs \<ge> 0 \<Longrightarrow> p (xs ! nat (findIndex p xs))"
  by (induction xs) (auto simp: Let_def nat_add_distrib split: if_splits)

lemma findIndex_first: "findIndex p xs \<ge> 0 \<Longrightarrow> \<forall>x \<in> set (take (nat (findIndex p xs)) xs). \<not> p x"
  by (induction xs) (auto simp: Let_def nat_add_distrib split: if_splits)

lemma splice1_decomp:
  assumes "findIndex p xs \<ge> 0"
  shows "\<exists>ys x zs. xs = ys @ x # zs \<and> p x \<and> (\<forall>y \<in> set ys. \<not> p y)
           \<and> splice1 (findIndex p xs) xs = ys @ zs"
proof -
  let ?i = "nat (findIndex p xs)"
  have lt: "?i < length xs" using assms by (rule findIndex_range)
  have "xs = take ?i xs @ xs ! ?i # drop (Suc ?i) xs"
    using lt by (simp add: id_take_nth_drop)
  moreover have "p (xs ! ?i)" using assms by (rule findIndex_hit)
  moreover have "\<forall>y \<in> set (take ?i xs). \<not> p y" using assms by (rule findIndex_first)
  moreover have "splice1 (findIndex p xs) xs = take ?i xs @ drop (Suc ?i) xs"
    by (simp add: splice1_def)
  ultimately show ?thesis by blast
qed

lemma mset_insertBy: "mset (insertBy cmp x xs) = add_mset x (mset xs)"
  by (induction xs) auto

lemma mset_sortBy: "mset (sortBy cmp xs) = mset xs"
  by (induction xs) (auto simp: sortBy_def mset_insertBy)

lemma distinct_map_sortBy: "distinct (map f (sortBy cmp xs)) = distinct (map f xs)"
proof -
  have "mset (map f (sortBy cmp xs)) = mset (map f xs)"
    using mset_sortBy[of cmp xs] by (metis mset_map)
  then show ?thesis by (rule mset_eq_imp_distinct_iff)
qed

lemma set_sortBy: "set (sortBy cmp xs) = set xs"
  using mset_sortBy[of cmp xs] by (metis set_mset_mset)

section \<open>What the handlers do to the favorites\<close>


lemma favorites_showStatus [simp]: "favorites (showStatus m t s) = favorites s"
  by (simp add: showStatus_def)
lemma favorites_showSkeleton [simp]: "favorites (showSkeleton s) = favorites s"
  by (simp add: showSkeleton_def)
lemma favorites_showError [simp]: "favorites (showError m s) = favorites s"
  by (simp add: showError_def)
lemma favorites_caught [simp]: "favorites (caught m e s) = favorites s"
  by (simp add: caught_def)
lemma favorites_sent [simp]: "favorites (sent rs s) = favorites s"
  by (simp add: sent_def)
lemma favorites_saveFavorites [simp]: "favorites (saveFavorites h s) = favorites s"
  by (simp add: saveFavorites_def)
lemma favorites_saveLastArticle [simp]: "favorites (saveLastArticle h s) = favorites s"
  by (simp add: saveLastArticle_def split: option.splits)
lemma favorites_updateFavoriteButton [simp]: "favorites (updateFavoriteButton s) = favorites s"
  by (simp add: updateFavoriteButton_def Let_def split: option.splits)
lemma favorites_updateFavoritesCount [simp]: "favorites (updateFavoritesCount s) = favorites s"
  by (simp add: updateFavoritesCount_def Let_def)
lemma favorites_closeFavoritesModal [simp]: "favorites (closeFavoritesModal s) = favorites s"
  by (simp add: closeFavoritesModal_def)
lemma favorites_clearCategorySelection [simp]: "favorites (clearCategorySelection s) = favorites s"
  by (simp add: clearCategorySelection_def)
lemma favorites_displayArticle [simp]: "favorites (displayArticle h a s) = favorites s"
  by (simp add: displayArticle_def Let_def)
lemma favorites_toggleTheme [simp]: "favorites (toggleTheme s) = favorites s"
  by (simp add: toggleTheme_def Let_def saveTheme_def)

lemma sortBy_Nil [simp]: "sortBy cmp [] = []"
  by (simp add: sortBy_def)

lemma favorites_renderFavoritesList:
  "favorites (renderFavoritesList s) = sortBy bySavedAtDescending (favorites s)"
  by (simp add: renderFavoritesList_def)

lemma favorites_toggleFavoritesModal:
  "favorites (toggleFavoritesModal s) = sortBy bySavedAtDescending (favorites s)"
  by (simp add: toggleFavoritesModal_def Let_def favorites_renderFavoritesList)

lemma favorites_handleSearch [simp]: "favorites (handleSearch h w s) = favorites s"
  by (simp add: handleSearch_def Let_def split: prod.splits sum.splits list.splits)

lemma favorites_handleCategoryClick [simp]:
  "favorites (handleCategoryClick h w c s) = favorites s"
  by (simp add: handleCategoryClick_def Let_def split: prod.splits sum.splits)

lemma favorites_fetchRandomArticle [simp]: "favorites (fetchRandomArticle h w s) = favorites s"
  by (simp add: fetchRandomArticle_def Let_def split: prod.splits sum.splits)

lemma favorites_openFavorite [simp]: "favorites (openFavorite h p s) = favorites s"
  by (simp add: openFavorite_def split: option.splits)

lemma favorites_removeFavorite:
  "favorites (removeFavorite h p s) =
     sortBy bySavedAtDescending (filter (\<lambda>fav. \<not> loose_eq (pageId fav) p) (favorites s))"
  by (simp add: removeFavorite_def Let_def favorites_renderFavoritesList)

lemma favorites_toggleFavorite:
  "favorites (toggleFavorite h t s) =
     (case currentArticle s of
        None \<Rightarrow> favorites s
      | Some cur \<Rightarrow>
          if findIndex (\<lambda>fav. strict_eq (pageId fav) (pageId cur)) (favorites s) \<ge> 0
          then splice1 (findIndex (\<lambda>fav. strict_eq (pageId fav) (pageId cur)) (favorites s))
                 (favorites s)
          else favorites s @ [cur\<lparr>savedAt := Some t\<rparr>])"
  by (simp add: toggleFavorite_def Let_def split: option.splits)

lemma unique_toggleFavorite:
  assumes "uniquePageIds (favorites s)"
  shows "uniquePageIds (favorites (toggleFavorite h t s))"
proof (cases "currentArticle s")
  case None
  then show ?thesis using assms by (simp add: favorites_toggleFavorite)
next
  case (Some cur)
  let ?p = "\<lambda>fav. strict_eq (pageId fav) (pageId cur)"
  show ?thesis
  proof (cases "findIndex ?p (favorites s) \<ge> 0")
    case True
    from splice1_decomp[OF True] obtain ys x zs where
      d: "favorites s = ys @ x # zs" "splice1 (findIndex ?p (favorites s)) (favorites s) = ys @ zs"
      by blast
    have "distinct (map pageId (ys @ zs))"
      using assms d(1) by (auto simp: uniquePageIds_distinct)
    then show ?thesis using Some True d(2)
      by (simp add: favorites_toggleFavorite uniquePageIds_distinct)
  next
    case False
    then have "findIndex ?p (favorites s) < 0" by simp
    then have "\<forall>x \<in> set (favorites s). pageId x \<noteq> pageId cur"
      by (simp add: findIndex_neg strict_eq_iff)
    then show ?thesis using Some False assms
      by (auto simp: favorites_toggleFavorite uniquePageIds_distinct)
  qed
qed

lemma unique_handle:
  assumes "uniquePageIds (favorites s)"
  shows "uniquePageIds (favorites (handle h i s))"
proof (cases i)
  case (ToggleFavorite t)
  then show ?thesis using assms by (simp add: unique_toggleFavorite)
next
  case (RemoveFavorite p)
  then show ?thesis using assms
    by (simp add: favorites_removeFavorite uniquePageIds_distinct distinct_map_sortBy
        distinct_map_filter)
next
  case ToggleFavoritesModal
  then show ?thesis using assms
    by (simp add: favorites_toggleFavoritesModal uniquePageIds_distinct distinct_map_sortBy)
qed (use assms in simp_all)

section \<open>Word count and reading time\<close>

lemma split_ws_Nil: "split_ws [] = [[]]"
  by (simp add: split_ws.simps)

lemma estimateWordCount_Nil: "estimateWordCount [] = 0"
  by (simp add: estimateWordCount_def split_ws_Nil)

text \<open>White space in front of a text only adds an empty piece, which is not counted.\<close>

lemma estimateWordCount_dropWhile:
  "estimateWordCount (dropWhile isWhiteSpace s) = estimateWordCount s"
proof (cases s)
  case Nil
  then show ?thesis by simp
next
  case (Cons c cs)
  show ?thesis
  proof (cases "isWhiteSpace c")
    case True
    then have "split_ws s = [] # split_ws (dropWhile isWhiteSpace s)"
      using Cons by (subst split_ws.simps) (simp add: Let_def)
    then show ?thesis by (simp add: estimateWordCount_def)
  next
    case False
    then show ?thesis using Cons by simp
  qed
qed

lemma estimateWordCount_Cons:
  "estimateWordCount (c # cs) =
     (if isWhiteSpace c then estimateWordCount cs
      else if cs \<noteq> [] \<and> \<not> isWhiteSpace (hd cs) then estimateWordCount cs
      else 1 + estimateWordCount cs)"
proof (cases "isWhiteSpace c")
  case True
  then show ?thesis
    using estimateWordCount_dropWhile[of "c # cs"] estimateWordCount_dropWhile[of cs] by simp
next
  case nws: False
  define rest where "rest = dropWhile (\<lambda>c. \<not> isWhiteSpace c) cs"
  have A: "estimateWordCount (c # cs) = 1 + (if rest = [] then 0 else estimateWordCount rest)"
    using nws estimateWordCount_dropWhile[of rest]
    by (subst estimateWordCount_def, subst split_ws.simps)
       (simp add: Let_def rest_def estimateWordCount_def)
  show ?thesis
  proof (cases cs)
    case Nil
    then show ?thesis using nws A by (simp add: rest_def estimateWordCount_Nil)
  next
    case (Cons d ds)
    show ?thesis
    proof (cases "isWhiteSpace d")
      case True
      then have "rest = cs" using Cons by (simp add: rest_def)
      then show ?thesis using A nws Cons True by simp
    next
      case False
      have "estimateWordCount cs = 1 + (if rest = [] then 0 else estimateWordCount rest)"
        using False Cons estimateWordCount_dropWhile[of rest]
        by (subst estimateWordCount_def, subst split_ws.simps)
           (simp add: Let_def rest_def estimateWordCount_def)
      then show ?thesis using A nws Cons False by simp
    qed
  qed
qed

lemma tokenStart_Suc:
  "tokenStart (c # cs) (Suc j) =
     (\<not> isWhiteSpace (cs ! j) \<and> (if j = 0 then isWhiteSpace c else isWhiteSpace (cs ! (j - 1))))"
  by (cases j) (simp_all add: tokenStart_def)

lemma upt_Suc_shift: "[0..<Suc n] = 0 # map Suc [0..<n]"
  by (simp add: upt_conv_Cons map_Suc_upt del: upt_Suc)

lemma tokenCount_Cons_space:
  assumes "isWhiteSpace c"
  shows "tokenCount (c # cs) = tokenCount cs"
proof -
  have "filter (tokenStart (c # cs) \<circ> Suc) [0..<length cs] = filter (tokenStart cs) [0..<length cs]"
    by (rule filter_cong) (auto simp: tokenStart_Suc tokenStart_def assms)
  then show ?thesis
    using assms
    by (simp add: tokenCount_def upt_Suc_shift filter_map tokenStart_def del: upt_Suc)
qed

lemma tokenCount_single:
  assumes "\<not> isWhiteSpace c"
  shows "tokenCount [c] = 1"
  using assms by (simp add: tokenCount_def tokenStart_def)

lemma tokenCount_Cons_letter:
  assumes "\<not> isWhiteSpace c"
  shows "tokenCount (c # d # ds) =
           (if isWhiteSpace d then 1 + tokenCount (d # ds) else tokenCount (d # ds))"
proof -
  have E: "filter (tokenStart (c # d # ds) \<circ> Suc \<circ> Suc) [0..<length ds]
         = filter (tokenStart (d # ds) \<circ> Suc) [0..<length ds]"
    by (rule filter_cong) (auto simp: tokenStart_Suc)
  have L: "tokenCount (c # d # ds) =
             1 + length (filter (tokenStart (c # d # ds) \<circ> Suc \<circ> Suc) [0..<length ds])"
    using assms
    by (simp add: tokenCount_def upt_Suc_shift[of "Suc (length ds)"] upt_Suc_shift[of "length ds"]
        filter_map tokenStart_Suc comp_def del: upt_Suc) (simp add: tokenStart_def)
  have R: "tokenCount (d # ds) =
             (if isWhiteSpace d then 0 else 1)
             + length (filter (tokenStart (d # ds) \<circ> Suc) [0..<length ds])"
    by (simp add: tokenCount_def upt_Suc_shift[of "length ds"] filter_map del: upt_Suc)
       (simp add: tokenStart_def)
  show ?thesis using L R E by simp
qed

text \<open>The code's count is the specification's.\<close>

lemma estimateWordCount_tokenCount: "estimateWordCount s = tokenCount s"
proof (induction s)
  case Nil
  show ?case by (simp add: tokenCount_def estimateWordCount_Nil)
next
  case (Cons c cs)
  note IH = Cons.IH
  show ?case
  proof (cases "isWhiteSpace c")
    case True
    then show ?thesis using IH by (simp add: estimateWordCount_Cons tokenCount_Cons_space)
  next
    case False
    show ?thesis
    proof (cases cs)
      case Nil
      then show ?thesis using False estimateWordCount_Nil
        by (simp add: estimateWordCount_Cons tokenCount_single)
    next
      case (Cons d ds)
      have "estimateWordCount (c # cs) =
              (if isWhiteSpace d then 1 + estimateWordCount cs else estimateWordCount cs)"
        using estimateWordCount_Cons[of c cs] False Cons by simp
      moreover have "tokenCount (c # cs) =
              (if isWhiteSpace d then 1 + tokenCount cs else tokenCount cs)"
        using tokenCount_Cons_letter[OF False, of d ds] Cons by simp
      ultimately show ?thesis using IH by simp
    qed
  qed
qed

lemma ceiling_div_200: "\<lceil>real n / 200\<rceil> = int ((n + 199) div 200)"
proof -
  have "real n / 200 = of_int (int n) / of_int 200" by simp
  then have "\<lceil>real n / 200\<rceil> = - (- int n div 200)"
    by (metis ceiling_divide_eq_div)
  also have "\<dots> = int ((n + 199) div 200)" by (simp add: zdiv_int; presburger)
  finally show ?thesis .
qed

lemma estimateReadingTime_div: "estimateReadingTime s = (estimateWordCount s + 199) div 200"
  by (simp add: estimateReadingTime_def Let_def ceiling_div_200)


text \<open>
  Where the provider supplies no summary text, or an empty one, the article shows a
  placeholder as its summary, while the words counted are those of the empty text.
\<close>

lemma normalized_without_extract:
  "summary (normalizeArticleData h t (d\<lparr>data_extract := None\<rparr>)) = ''No summary available.''
   \<and> summary (normalizeArticleData h t (d\<lparr>data_extract := Some []\<rparr>)) = ''No summary available.''
   \<and> wordCount (normalizeArticleData h t (d\<lparr>data_extract := None\<rparr>)) = 0
   \<and> readingTime (normalizeArticleData h t (d\<lparr>data_extract := None\<rparr>)) = 0"
  by (simp add: normalizeArticleData_def orElse_def estimateWordCount_Nil
      estimateReadingTime_div)

text \<open>
  Claim C4.  For every summary text \<open>s\<close> the provider supplies (the property
  \<^verbatim>\<open>extract\<close>), the normalized article's \<open>wordCount\<close> is the number of
  white-space-delimited non-empty tokens of \<open>s\<close>, which is 0 for the empty text, and its
  \<open>readingTime\<close> is the ceiling of \<open>wordCount / 200\<close>: 0 exactly when \<open>wordCount\<close> is 0,
  and at least 1 when \<open>wordCount\<close> is positive.
\<close>

theorem normalized_wordCount_readingTime:
  "wordCount (normalizeArticleData h t (d\<lparr>data_extract := Some s\<rparr>)) = tokenCount s
   \<and> wordCount (normalizeArticleData h t (d\<lparr>data_extract := Some []\<rparr>)) = 0
   \<and> int (readingTime (normalizeArticleData h t (d\<lparr>data_extract := Some s\<rparr>)))
       = \<lceil>real (tokenCount s) / 200\<rceil>
   \<and> (readingTime (normalizeArticleData h t (d\<lparr>data_extract := Some s\<rparr>)) = 0)
       = (tokenCount s = 0)
   \<and> (1 \<le> readingTime (normalizeArticleData h t (d\<lparr>data_extract := Some s\<rparr>)))
       = (0 < tokenCount s)"
proof -
  have tx: "orElse (Some s) [] = s" by (simp add: orElse_def)
  have wc: "wordCount (normalizeArticleData h t (d\<lparr>data_extract := Some s\<rparr>)) = tokenCount s"
    by (simp add: normalizeArticleData_def tx estimateWordCount_tokenCount)
  have wc0: "wordCount (normalizeArticleData h t (d\<lparr>data_extract := Some []\<rparr>)) = 0"
    by (simp add: normalizeArticleData_def orElse_def estimateWordCount_Nil)
  have rt: "readingTime (normalizeArticleData h t (d\<lparr>data_extract := Some s\<rparr>))
              = (tokenCount s + 199) div 200"
    by (simp add: normalizeArticleData_def tx estimateReadingTime_div
        estimateWordCount_tokenCount)
  have c: "int (readingTime (normalizeArticleData h t (d\<lparr>data_extract := Some s\<rparr>)))
              = \<lceil>real (tokenCount s) / 200\<rceil>"
    by (simp only: rt ceiling_div_200)
  have z: "((tokenCount s + 199) div 200 = 0) = (tokenCount s = 0)"
    by (simp add: div_eq_0_iff)
  have p: "(1 \<le> (tokenCount s + 199) div 200) = (0 < tokenCount s)"
    using z by linarith
  show ?thesis using wc wc0 c z p by (simp only: rt)
qed

section \<open>Favorites\<close>

text \<open>
  Claim C1.  Starting from favorites with pairwise distinct \<^verbatim>\<open>pageId\<close>s, no sequence of
  intents (calls of \<^verbatim>\<open>toggleFavorite\<close> and \<^verbatim>\<open>removeFavorite\<close> among them, whatever
  article is current at each) leads to favorites holding two entries with the same
  \<^verbatim>\<open>pageId\<close>.
\<close>


theorem favorites_stay_unique:
  assumes "uniquePageIds (favorites s)"
  shows "uniquePageIds (favorites (run h is s))"
  using assms by (induction "is" arbitrary: s) (simp_all add: unique_handle)

theorem favorites_stay_unique_witness:
  "uniquePageIds (favorites (exampleState (Some (exampleArticle (JNum 7)))
       [exampleFavorite (JNum 3) 10, exampleFavorite (JStr ''3'') 20]))
   \<and> uniquePageIds (favorites (run exampleHost
         [ToggleFavorite 30, RemoveFavorite (JNum 3), ToggleFavorite 40, ToggleFavorite 50]
         (exampleState (Some (exampleArticle (JNum 7)))
            [exampleFavorite (JNum 3) 10, exampleFavorite (JStr ''3'') 20])))"
  using favorites_stay_unique[of "exampleState (Some (exampleArticle (JNum 7)))
       [exampleFavorite (JNum 3) 10, exampleFavorite (JStr ''3'') 20]" exampleHost
       "[ToggleFavorite 30, RemoveFavorite (JNum 3), ToggleFavorite 40, ToggleFavorite 50]"]
  by (simp add: exampleState_def exampleFavorite_def exampleArticle_def)

lemma currentArticle_toggleFavorite [simp]:
  "currentArticle (toggleFavorite h t s) = currentArticle s"
  by (simp add: toggleFavorite_def Let_def updateFavoritesCount_def updateFavoriteButton_def
      saveFavorites_def showStatus_def split: option.splits)

lemma findIndex_filter: "(findIndex p xs \<ge> 0) = (filter p xs \<noteq> [])"
  using findIndex_neg[of p xs] by (auto simp: filter_empty_conv not_le)

lemma splice1_count:
  assumes "findIndex p xs \<ge> 0"
  shows "Suc (length (filter p (splice1 (findIndex p xs) xs))) = length (filter p xs)"
proof -
  from splice1_decomp[OF assms] obtain ys x zs where
    d: "xs = ys @ x # zs" "p x" "splice1 (findIndex p xs) xs = ys @ zs"
    by blast
  show ?thesis by (simp only: d(3)) (simp add: d(1) d(2))
qed

lemma splice1_pageIds:
  assumes "findIndex (\<lambda>fav. strict_eq (pageId fav) q) xs \<ge> 0"
  shows "insert q (set (map pageId (splice1 (findIndex (\<lambda>fav. strict_eq (pageId fav) q) xs) xs)))
           = set (map pageId xs)"
proof -
  from splice1_decomp[OF assms] obtain ys x zs where
    d: "xs = ys @ x # zs" "strict_eq (pageId x) q"
       "splice1 (findIndex (\<lambda>fav. strict_eq (pageId fav) q) xs) xs = ys @ zs"
    by blast
  have "pageId x = q" using d(2) by (simp add: strict_eq_iff)
  then show ?thesis by (simp only: d(3)) (auto simp: d(1))
qed

lemma pageId_in_iff:
  "(q \<in> pageId ` set xs) = (filter (\<lambda>fav. strict_eq (pageId fav) q) xs \<noteq> [])"
  by (auto simp: filter_empty_conv strict_eq_iff)

lemma findIndex_append_last:
  assumes "\<forall>x \<in> set xs. \<not> p x" and "p y"
  shows "findIndex p (xs @ [y]) = int (length xs)"
  using assms by (induction xs) (auto simp: Let_def)

lemma toggle_twice_pageIds:
  assumes cur: "currentArticle s = Some cur"
      and n: "length (entriesFor cur (favorites s)) \<noteq> 2"
  shows "set (map pageId (favorites (toggleFavorite h t' (toggleFavorite h t s))))
           = set (map pageId (favorites s))"
proof -
  let ?p = "\<lambda>fav. strict_eq (pageId fav) (pageId cur)"
  let ?xs = "favorites s"
  let ?s1 = "toggleFavorite h t s"
  have cur1: "currentArticle ?s1 = Some cur" using cur by simp
  show ?thesis
  proof (cases "findIndex ?p ?xs \<ge> 0")
    case False
    then have none: "\<forall>x \<in> set ?xs. \<not> ?p x" by (simp add: findIndex_neg not_le)
    have f1: "favorites ?s1 = ?xs @ [cur\<lparr>savedAt := Some t\<rparr>]"
      using cur False by (simp add: favorites_toggleFavorite)
    have own: "?p (cur\<lparr>savedAt := Some t\<rparr>)" by (simp add: strict_eq_iff)
    have ix: "findIndex ?p (favorites ?s1) = int (length ?xs)"
      unfolding f1 using none own by (rule findIndex_append_last)
    have "favorites (toggleFavorite h t' ?s1)
            = splice1 (findIndex ?p (favorites ?s1)) (favorites ?s1)"
      using cur1 ix by (subst favorites_toggleFavorite) simp
    also have "\<dots> = ?xs"
      by (simp add: ix) (simp add: f1 splice1_def)
    finally show ?thesis by simp
  next
    case True
    have f1: "favorites ?s1 = splice1 (findIndex ?p ?xs) ?xs"
      using cur True by (simp add: favorites_toggleFavorite)
    have c1: "Suc (length (filter ?p (favorites ?s1))) = length (filter ?p ?xs)"
      using splice1_count[OF True] by (simp add: f1)
    have p1: "insert (pageId cur) (set (map pageId (favorites ?s1))) = set (map pageId ?xs)"
      using splice1_pageIds[OF True] by (simp add: f1)
    show ?thesis
    proof (cases "findIndex ?p (favorites ?s1) \<ge> 0")
      case False
      then have "favorites (toggleFavorite h t' ?s1) = favorites ?s1 @ [cur\<lparr>savedAt := Some t'\<rparr>]"
        using cur1 by (simp add: favorites_toggleFavorite)
      then show ?thesis using p1 by simp
    next
      case hit: True
      have f2: "favorites (toggleFavorite h t' ?s1)
                  = splice1 (findIndex ?p (favorites ?s1)) (favorites ?s1)"
        using cur1 hit by (simp add: favorites_toggleFavorite)
      have c2: "Suc (length (filter ?p (favorites (toggleFavorite h t' ?s1))))
                  = length (filter ?p (favorites ?s1))"
        using splice1_count[OF hit] by (simp add: f2)
      have p2: "insert (pageId cur) (set (map pageId (favorites (toggleFavorite h t' ?s1))))
                  = set (map pageId (favorites ?s1))"
        using splice1_pageIds[OF hit] by (simp add: f2)
      have "length (filter ?p (favorites (toggleFavorite h t' ?s1))) \<noteq> 0"
        using c1 c2 n unfolding entriesFor_def by arith
      then have "pageId cur \<in> set (map pageId (favorites (toggleFavorite h t' ?s1)))"
        by (simp add: pageId_in_iff)
      then show ?thesis using p1 p2 by (metis insert_absorb)
    qed
  qed
qed

lemma unique_entriesFor:
  assumes "uniquePageIds favs"
  shows "length (entriesFor a favs) \<le> 1"
  using assms
  by (induction favs) (auto simp: entriesFor_def list_ex_iff strict_eq_iff filter_empty_conv)

text \<open>
  Claim C2, amended.  With a current article whose \<^verbatim>\<open>pageId\<close> the favorites do not hold
  exactly twice (so whenever the favorites' \<^verbatim>\<open>pageId\<close>s are pairwise distinct), two
  calls of \<^verbatim>\<open>toggleFavorite\<close> in succession leave the set of the favorites'
  \<^verbatim>\<open>pageId\<close>s as it was; without a current article a call changes nothing at all.
\<close>

theorem toggle_twice_restores_membership:
  "(currentArticle s = Some cur \<and> length (entriesFor cur (favorites s)) \<noteq> 2 \<longrightarrow>
      set (map pageId (favorites (toggleFavorite h t' (toggleFavorite h t s))))
        = set (map pageId (favorites s)))
   \<and> (currentArticle s = Some cur \<and> uniquePageIds (favorites s) \<longrightarrow>
      set (map pageId (favorites (toggleFavorite h t' (toggleFavorite h t s))))
        = set (map pageId (favorites s)))
   \<and> (currentArticle s = None \<longrightarrow> toggleFavorite h t s = s)"
proof (intro conjI impI)
  assume "currentArticle s = Some cur \<and> length (entriesFor cur (favorites s)) \<noteq> 2"
  then show "set (map pageId (favorites (toggleFavorite h t' (toggleFavorite h t s))))
        = set (map pageId (favorites s))"
    using toggle_twice_pageIds by blast
next
  assume a: "currentArticle s = Some cur \<and> uniquePageIds (favorites s)"
  then have "length (entriesFor cur (favorites s)) \<le> 1" using unique_entriesFor by blast
  then have "length (entriesFor cur (favorites s)) \<noteq> 2" by simp
  then show "set (map pageId (favorites (toggleFavorite h t' (toggleFavorite h t s))))
        = set (map pageId (favorites s))"
    using a toggle_twice_pageIds by blast
next
  assume "currentArticle s = None"
  then show "toggleFavorite h t s = s" by (simp add: toggleFavorite_def)
qed

theorem toggle_twice_restores_membership_witness:
  "currentArticle (exampleState (Some (exampleArticle (JNum 7)))
       [exampleFavorite (JNum 7) 10, exampleFavorite (JNum 9) 20]) = Some (exampleArticle (JNum 7))
   \<and> length (entriesFor (exampleArticle (JNum 7))
         [exampleFavorite (JNum 7) 10, exampleFavorite (JNum 9) 20]) = 1
   \<and> set (map pageId (favorites (toggleFavorite exampleHost 40 (toggleFavorite exampleHost 30
        (exampleState (Some (exampleArticle (JNum 7)))
           [exampleFavorite (JNum 7) 10, exampleFavorite (JNum 9) 20])))))
     = set (map pageId (favorites (exampleState (Some (exampleArticle (JNum 7)))
           [exampleFavorite (JNum 7) 10, exampleFavorite (JNum 9) 20])))
   \<and> toggleFavorite exampleHost 30 (exampleState None [exampleFavorite (JNum 7) 10])
     = exampleState None [exampleFavorite (JNum 7) 10]"
  using toggle_twice_restores_membership[of
      "exampleState (Some (exampleArticle (JNum 7)))
         [exampleFavorite (JNum 7) 10, exampleFavorite (JNum 9) 20]"
      "exampleArticle (JNum 7)" exampleHost 40 30]
    toggle_twice_restores_membership[of
      "exampleState None [exampleFavorite (JNum 7) 10]" "exampleArticle (JNum 7)"
      exampleHost 40 30]
  by (simp add: exampleState_def exampleFavorite_def exampleArticle_def entriesFor_def)

text \<open>
  The claim as stated fails where the favorites hold the current article's \<^verbatim>\<open>pageId\<close>
  twice: each call removes one entry, and the \<^verbatim>\<open>pageId\<close> is gone after the second.
\<close>

theorem toggle_twice_counterexample:
  "currentArticle (exampleState (Some (exampleArticle (JNum 7)))
       [exampleFavorite (JNum 7) 10, exampleFavorite (JNum 7) 20]) = Some (exampleArticle (JNum 7))
   \<and> favorites (toggleFavorite exampleHost 40 (toggleFavorite exampleHost 30
        (exampleState (Some (exampleArticle (JNum 7)))
           [exampleFavorite (JNum 7) 10, exampleFavorite (JNum 7) 20]))) = []
   \<and> set (map pageId (favorites (toggleFavorite exampleHost 40 (toggleFavorite exampleHost 30
        (exampleState (Some (exampleArticle (JNum 7)))
           [exampleFavorite (JNum 7) 10, exampleFavorite (JNum 7) 20])))))
     \<noteq> set (map pageId (favorites (exampleState (Some (exampleArticle (JNum 7)))
           [exampleFavorite (JNum 7) 10, exampleFavorite (JNum 7) 20])))"
  by (simp add: favorites_toggleFavorite exampleState_def exampleFavorite_def exampleArticle_def
      splice1_def Let_def)

section \<open>Fetching for a category\<close>


lemma randomIndex_range:
  assumes "0 \<le> r" "r < 1" "0 < n"
  shows "0 \<le> randomIndex r n \<and> randomIndex r n < int n"
proof -
  have "0 \<le> r * real n" using assms by simp
  then have lo: "0 \<le> randomIndex r n" by (simp add: randomIndex_def)
  have "r * real n < real n" using assms by simp
  then have "\<lfloor>r * real n\<rfloor> < int n" by (simp add: floor_less_iff)
  then show ?thesis using lo by (simp add: randomIndex_def)
qed

lemma element_random:
  assumes "0 \<le> r" "r < 1" "xs \<noteq> []"
  shows "element xs (randomIndex r (length xs)) = Some (xs ! nat (randomIndex r (length xs)))
         \<and> nat (randomIndex r (length xs)) < length xs"
  using randomIndex_range[OF assms(1,2), of "length xs"] assms(3)
  by (auto simp: element_def)

lemma randomKeyword_configured:
  assumes "map_of CATEGORIES category = Some keywords" "0 \<le> random1 w" "random1 w < 1"
  shows "randomKeyword w category = keywords ! nat (randomIndex (random1 w) (length keywords))
         \<and> nat (randomIndex (random1 w) (length keywords)) < length keywords"
proof -
  have "(category, keywords) \<in> set CATEGORIES" using assms(1) by (rule map_of_SomeD)
  then have ne: "keywords \<noteq> []" by (auto simp: CATEGORIES_def)
  show ?thesis
    using element_random[OF assms(2,3) ne] assms(1)
    by (simp add: randomKeyword_def CATEGORIES_get_def toText_def Let_def)
qed

lemma searchArticles_requests:
  "searchArticles w q n = (fst (searchArticles w q n), [Search q n])"
  by (simp add: searchArticles_def)

lemma fetchArticleByTitle_requests:
  "fetchArticleByTitle h w t
     = (fst (fetchArticleByTitle h w t), [Summary (encodeURIComponent h t)])"
  by (simp add: fetchArticleByTitle_def Let_def)

text \<open>The result of the function, from the result of its \<^verbatim>\<open>try\<close> block.\<close>

lemma fetchCategoryArticle_search_failed:
  assumes "fst (searchArticles w (randomKeyword w category) 20) = Inl e"
  shows "fetchCategoryArticle h w category
           = (Inl (Error ''Failed to fetch category article''), [Search (randomKeyword w category) 20])"
proof -
  have "searchArticles w (randomKeyword w category) 20
          = (Inl e, [Search (randomKeyword w category) 20])"
    using assms searchArticles_requests[of w "randomKeyword w category" 20] by simp
  then show ?thesis
    by (simp add: fetchCategoryArticle_def fetchCategoryArticle_try_def Let_def)
qed

lemma fetchCategoryArticle_no_results:
  assumes "fst (searchArticles w (randomKeyword w category) 20) = Inr []"
  shows "fetchCategoryArticle h w category
           = (Inl (Error ''Failed to fetch category article''), [Search (randomKeyword w category) 20])
         \<and> fetchCategoryArticle_try h w category
           = (Inl (Error ''No articles found for this category''),
              [Search (randomKeyword w category) 20])"
proof -
  have "searchArticles w (randomKeyword w category) 20
          = (Inr [], [Search (randomKeyword w category) 20])"
    using assms searchArticles_requests[of w "randomKeyword w category" 20] by simp
  then show ?thesis
    by (simp add: fetchCategoryArticle_def fetchCategoryArticle_try_def Let_def)
qed

lemma fetchCategoryArticle_results:
  assumes found: "fst (searchArticles w (randomKeyword w category) 20) = Inr results"
      and ne: "results \<noteq> []"
      and r2: "0 \<le> random2 w" "random2 w < 1"
  shows "\<exists>i. i < min 5 (length results) \<and>
           fetchCategoryArticle h w category =
             (case fst (fetchArticleByTitle h w (result_title (results ! i))) of
                Inl e \<Rightarrow> Inl (Error ''Failed to fetch category article'')
              | Inr a \<Rightarrow> Inr a,
              [Search (randomKeyword w category) 20,
               Summary (encodeURIComponent h (result_title (results ! i)))])"
proof -
  let ?n = "min 5 (length results)"
  let ?i = "nat (randomIndex (random2 w) ?n)"
  have pos: "0 < ?n" using ne by simp
  have rg: "0 \<le> randomIndex (random2 w) ?n \<and> randomIndex (random2 w) ?n < int ?n"
    using randomIndex_range[OF r2 pos] .
  then have lt: "?i < ?n" by linarith
  have el: "element results (randomIndex (random2 w) ?n) = Some (results ! ?i)"
    using rg by (auto simp: element_def)
  have "fetchCategoryArticle h w category =
             (case fst (fetchArticleByTitle h w (result_title (results ! ?i))) of
                Inl e \<Rightarrow> Inl (Error ''Failed to fetch category article'')
              | Inr a \<Rightarrow> Inr a,
              [Search (randomKeyword w category) 20,
               Summary (encodeURIComponent h (result_title (results ! ?i)))])"
  proof -
    have sa: "searchArticles w (randomKeyword w category) 20
                = (Inr results, [Search (randomKeyword w category) 20])"
      using found searchArticles_requests[of w "randomKeyword w category" 20] by simp
    obtain f where
      fa: "fetchArticleByTitle h w (result_title (results ! ?i))
             = (f, [Summary (encodeURIComponent h (result_title (results ! ?i)))])"
      using fetchArticleByTitle_requests[of h w "result_title (results ! ?i)"] by blast
    show ?thesis
      using ne
      by (cases f)
         (simp_all add: fetchCategoryArticle_def fetchCategoryArticle_try_def Let_def sa el fa)
  qed
  then show ?thesis using lt by blast
qed

lemma fetchCategoryArticle_sent:
  "\<exists>rest. snd (fetchCategoryArticle h w category) = Search (randomKeyword w category) 20 # rest
          \<and> (rest = [] \<or> (\<exists>encodedTitle. rest = [Summary encodedTitle]))"
proof (cases "fst (searchArticles w (randomKeyword w category) 20)")
  case (Inl e)
  then show ?thesis using fetchCategoryArticle_search_failed[OF Inl, of h] by simp
next
  case (Inr results)
  have sa: "searchArticles w (randomKeyword w category) 20
              = (Inr results, [Search (randomKeyword w category) 20])"
    using Inr searchArticles_requests[of w "randomKeyword w category" 20] by simp
  have fa: "rs = [Summary (encodeURIComponent h t)]"
    if "fetchArticleByTitle h w t = (r, rs)" for t r rs
    using that by (auto simp: fetchArticleByTitle_def Let_def)
  show ?thesis
    by (auto simp: fetchCategoryArticle_def fetchCategoryArticle_try_def Let_def sa
        split: option.splits sum.splits prod.splits dest: fa)
qed

text \<open>
  Claim C3, amended.  For every category of the configured mapping, with the two values of
  \<^verbatim>\<open>Math.random()\<close> in \<open>[0, 1)\<close>, \<^verbatim>\<open>fetchCategoryArticle\<close> searches for one keyword of
  that category's set with limit 20.  When the search fails or finds nothing it fails, in
  both cases with the one error \<open>Failed to fetch category article\<close> and after that single
  request.  Otherwise it fetches the article of the title of one of the first
  \<open>min 5 (length results)\<close> results (so of the first 5), and returns that article or,
  when this request fails, the same error.
\<close>

theorem fetchCategoryArticle_configured:
  assumes cat: "map_of CATEGORIES category = Some keywords"
      and r1: "0 \<le> random1 w" "random1 w < 1"
      and r2: "0 \<le> random2 w" "random2 w < 1"
  shows "\<exists>keyword \<in> set keywords.
           (case fst (searchArticles w keyword 20) of
              Inl e \<Rightarrow>
                fetchCategoryArticle h w category
                  = (Inl (Error ''Failed to fetch category article''), [Search keyword 20])
            | Inr results \<Rightarrow>
                if results = []
                then fetchCategoryArticle h w category
                       = (Inl (Error ''Failed to fetch category article''), [Search keyword 20])
                else \<exists>i. i < min 5 (length results) \<and> i < 5 \<and>
                       fetchCategoryArticle h w category =
                         (case fst (fetchArticleByTitle h w (result_title (results ! i))) of
                            Inl e \<Rightarrow> Inl (Error ''Failed to fetch category article'')
                          | Inr a \<Rightarrow> Inr a,
                          [Search keyword 20,
                           Summary (encodeURIComponent h (result_title (results ! i)))]))"
proof -
  let ?k = "randomKeyword w category"
  have k: "?k \<in> set keywords"
    using randomKeyword_configured[OF cat r1] by (metis nth_mem)
  have "case fst (searchArticles w ?k 20) of
              Inl e \<Rightarrow>
                fetchCategoryArticle h w category
                  = (Inl (Error ''Failed to fetch category article''), [Search ?k 20])
            | Inr results \<Rightarrow>
                if results = []
                then fetchCategoryArticle h w category
                       = (Inl (Error ''Failed to fetch category article''), [Search ?k 20])
                else \<exists>i. i < min 5 (length results) \<and> i < 5 \<and>
                       fetchCategoryArticle h w category =
                         (case fst (fetchArticleByTitle h w (result_title (results ! i))) of
                            Inl e \<Rightarrow> Inl (Error ''Failed to fetch category article'')
                          | Inr a \<Rightarrow> Inr a,
                          [Search ?k 20,
                           Summary (encodeURIComponent h (result_title (results ! i)))])"
  proof (cases "fst (searchArticles w ?k 20)")
    case (Inl e)
    then show ?thesis using fetchCategoryArticle_search_failed[OF Inl, of h] by simp
  next
    case (Inr results)
    show ?thesis
    proof (cases "results = []")
      case True
      then show ?thesis using Inr fetchCategoryArticle_no_results[of w category h] by simp
    next
      case False
      from fetchCategoryArticle_results[OF Inr False r2, of h] obtain i where
        "i < min 5 (length results)"
        "fetchCategoryArticle h w category =
             (case fst (fetchArticleByTitle h w (result_title (results ! i))) of
                Inl e \<Rightarrow> Inl (Error ''Failed to fetch category article'')
              | Inr a \<Rightarrow> Inr a,
              [Search ?k 20, Summary (encodeURIComponent h (result_title (results ! i)))])"
        by blast
      moreover from this have "i < 5" by simp
      ultimately show ?thesis using Inr False by auto
    qed
  qed
  then show ?thesis using k by blast
qed

theorem fetchCategoryArticle_configured_witness:
  "map_of CATEGORIES ''history''
     = Some [''history'', ''historical'', ''ancient'', ''medieval'', ''war'', ''empire'',
             ''civilization'']
   \<and> (0::real) \<le> 1 / 2 \<and> (1::real) / 2 < 1 \<and> (0::real) \<le> 9 / 10 \<and> (9::real) / 10 < 1
   \<and> (\<exists>keyword \<in> set [''history'', ''historical'', ''ancient'', ''medieval'', ''war'',
                            ''empire'', ''civilization''].
        \<exists>i < 5.
          snd (fetchCategoryArticle exampleHost (exampleWorld (exampleResults 20) (1 / 2) (9 / 10))
                 ''history'')
            = [Search keyword 20, Summary (result_title (exampleResults 20 ! i))])"
proof -
  let ?w = "exampleWorld (exampleResults 20) (1 / 2) (9 / 10)"
  have cat: "map_of CATEGORIES ''history''
     = Some [''history'', ''historical'', ''ancient'', ''medieval'', ''war'', ''empire'',
             ''civilization'']"
    by (simp add: CATEGORIES_def)
  have r: "0 \<le> random1 ?w" "random1 ?w < 1" "0 \<le> random2 ?w" "random2 ?w < 1"
    by (simp_all add: exampleWorld_def)
  have found: "fst (searchArticles ?w k 20) = Inr (exampleResults 20)" for k
    by (simp add: searchArticles_def exampleWorld_def)
  have ne: "exampleResults 20 \<noteq> []"
    by (simp add: exampleResults_def)
  have enc: "encodeURIComponent exampleHost t = t" for t
    by (simp add: exampleHost_def)
  from fetchCategoryArticle_configured[OF cat r, of exampleHost]
  have "\<exists>keyword \<in> set [''history'', ''historical'', ''ancient'', ''medieval'', ''war'',
                            ''empire'', ''civilization''].
          \<exists>i. i < min 5 (length (exampleResults 20)) \<and> i < 5 \<and>
            fetchCategoryArticle exampleHost ?w ''history'' =
              (case fst (fetchArticleByTitle exampleHost ?w
                           (result_title (exampleResults 20 ! i))) of
                 Inl e \<Rightarrow> Inl (Error ''Failed to fetch category article'')
               | Inr a \<Rightarrow> Inr a,
               [Search keyword 20, Summary (result_title (exampleResults 20 ! i))])"
    by (simp only: found sum.case ne if_False enc)
  then obtain keyword i where
    "keyword \<in> set [''history'', ''historical'', ''ancient'', ''medieval'', ''war'',
                     ''empire'', ''civilization'']"
    "i < 5"
    "snd (fetchCategoryArticle exampleHost ?w ''history'')
       = [Search keyword 20, Summary (result_title (exampleResults 20 ! i))]"
    by force
  then have "\<exists>keyword \<in> set [''history'', ''historical'', ''ancient'', ''medieval'', ''war'',
                            ''empire'', ''civilization''].
        \<exists>i < 5.
          snd (fetchCategoryArticle exampleHost ?w ''history'')
            = [Search keyword 20, Summary (result_title (exampleResults 20 ! i))]"
    by blast
  then show ?thesis using cat by simp
qed

text \<open>
  The claim as stated fails on the error: the \<open>No articles found\<close> error that the
  \<^verbatim>\<open>try\<close> block throws for an empty search result never leaves the function, whose
  failure is the one of a provider that does not answer at all.
\<close>

theorem fetchCategoryArticle_no_results_counterexample:
  "fst (searchArticles (exampleWorld [] 0 0) ''history'' 20) = Inr []
   \<and> fetchCategoryArticle exampleHost (exampleWorld [] 0 0) ''history''
       = (Inl (Error ''Failed to fetch category article''), [Search ''history'' 20])
   \<and> fst (fetchCategoryArticle exampleHost (exampleWorld [] 0 0) ''history'')
       \<noteq> Inl (Error ''No articles found for this category'')
   \<and> fetchCategoryArticle exampleHost (exampleWorld [] 0 0) ''history''
       = fetchCategoryArticle exampleHost offlineWorld ''history''"
  by code_simp

section \<open>A category that is not configured\<close>

lemma randomKeyword_absent:
  assumes "CATEGORIES_get category = Absent" "0 \<le> random1 w" "random1 w < 1"
  shows "randomKeyword w category = category"
  using element_random[OF assms(2,3), of "[category]"] assms(1)
  by (simp add: randomKeyword_def toText_def Let_def)

text \<open>
  Claim C9, at the input \<open>constructor\<close>.  The name is no key of the configured mapping,
  yet the lookup finds the property that the object inherits, the fallback to the category
  itself is not taken, and the search is for the text \<open>undefined\<close>.
\<close>

theorem inherited_name_is_not_the_keyword:
  "map_of CATEGORIES ''constructor'' = None
   \<and> CATEGORIES_get ''constructor'' = Inherited
   \<and> randomKeyword w ''constructor'' = ''undefined''
   \<and> (\<exists>rest. snd (fetchCategoryArticle h w ''constructor'') = Search ''undefined'' 20 # rest)"
proof -
  have m: "map_of CATEGORIES ''constructor'' = None" by (simp add: CATEGORIES_def)
  have g: "CATEGORIES_get ''constructor'' = Inherited"
    by (simp add: CATEGORIES_get_def m objectPrototypeNames_def)
  have k: "randomKeyword w ''constructor'' = ''undefined''"
    by (simp add: randomKeyword_def g)
  have "\<exists>rest. snd (fetchCategoryArticle h w ''constructor'')
                 = Search (randomKeyword w ''constructor'') 20 # rest"
    using fetchCategoryArticle_sent[of h w "''constructor''"] by blast
  then show ?thesis using m g k by simp
qed


section \<open>What the handlers do to the selected category and to the requests\<close>

lemmas basic_defs =
  showStatus_def showSkeleton_def showError_def caught_def sent_def saveFavorites_def
  saveLastArticle_def saveTheme_def updateFavoriteButton_def updateFavoritesCount_def
  closeFavoritesModal_def renderFavoritesList_def clearCategorySelection_def
  displayArticle_def

lemma selectedCategory_displayArticle [simp]:
  "selectedCategory (displayArticle h a s) = selectedCategory s"
  by (simp add: basic_defs Let_def split: option.splits)

lemma requests_displayArticle [simp]: "requests (displayArticle h a s) = requests s"
  by (simp add: basic_defs Let_def split: option.splits)

lemma selectedCategory_caught [simp]: "selectedCategory (caught m e s) = selectedCategory s"
  by (simp add: basic_defs)

lemma requests_caught [simp]: "requests (caught m e s) = requests s"
  by (simp add: basic_defs)

lemma selectedCategory_showStatus [simp]:
  "selectedCategory (showStatus m t s) = selectedCategory s"
  by (simp add: basic_defs)

lemma requests_showStatus [simp]: "requests (showStatus m t s) = requests s"
  by (simp add: basic_defs)

lemma selectedCategory_showSkeleton [simp]:
  "selectedCategory (showSkeleton s) = selectedCategory s"
  by (simp add: basic_defs)

lemma requests_showSkeleton [simp]: "requests (showSkeleton s) = requests s"
  by (simp add: basic_defs)

lemma selectedCategory_sent [simp]: "selectedCategory (sent rs s) = selectedCategory s"
  by (simp add: basic_defs)

lemma requests_sent [simp]: "requests (sent rs s) = requests s @ rs"
  by (simp add: basic_defs)

lemma selectedCategory_fetchRandomArticle:
  "selectedCategory (fetchRandomArticle h w s) = selectedCategory s"
  by (simp add: fetchRandomArticle_def Let_def split: prod.splits sum.splits)

lemma requests_fetchRandomArticle:
  "requests (fetchRandomArticle h w s) = requests s @ snd (articleRequest h w s)"
  by (auto simp: fetchRandomArticle_def articleRequest_def Let_def
      split: prod.splits sum.splits)

lemma selectedCategory_handleCategoryClick:
  "selectedCategory (handleCategoryClick h w category s) = Some category"
  by (simp add: handleCategoryClick_def Let_def split: prod.splits sum.splits)

lemma requests_handleCategoryClick:
  "requests (handleCategoryClick h w category s)
     = requests s @ snd (fetchCategoryArticle h w category)"
  by (auto simp: handleCategoryClick_def Let_def split: prod.splits sum.splits)

lemma handleSearch_empty: "trim (searchInput s) = [] \<Longrightarrow> handleSearch h w s = s"
  by (simp add: handleSearch_def)

lemma selectedCategory_toggleFavorite:
  "selectedCategory (toggleFavorite h t s) = selectedCategory s"
  by (simp add: toggleFavorite_def basic_defs Let_def split: option.splits)

lemma requests_toggleFavorite: "requests (toggleFavorite h t s) = requests s"
  by (simp add: toggleFavorite_def basic_defs Let_def split: option.splits)

lemma selectedCategory_removeFavorite:
  "selectedCategory (removeFavorite h p s) = selectedCategory s"
  by (simp add: removeFavorite_def basic_defs Let_def split: option.splits)

lemma requests_removeFavorite: "requests (removeFavorite h p s) = requests s"
  by (simp add: removeFavorite_def basic_defs Let_def split: option.splits)

lemma selectedCategory_openFavorite:
  "selectedCategory (openFavorite h p s) = selectedCategory s"
  by (simp add: openFavorite_def closeFavoritesModal_def split: option.splits)

lemma requests_openFavorite: "requests (openFavorite h p s) = requests s"
  by (simp add: openFavorite_def closeFavoritesModal_def split: option.splits)

lemma selectedCategory_toggleFavoritesModal:
  "selectedCategory (toggleFavoritesModal s) = selectedCategory s"
  by (simp add: toggleFavoritesModal_def basic_defs Let_def)

lemma requests_toggleFavoritesModal: "requests (toggleFavoritesModal s) = requests s"
  by (simp add: toggleFavoritesModal_def basic_defs Let_def)

lemma selectedCategory_toggleTheme: "selectedCategory (toggleTheme s) = selectedCategory s"
  by (simp add: toggleTheme_def basic_defs Let_def)

lemma requests_toggleTheme: "requests (toggleTheme s) = requests s"
  by (simp add: toggleTheme_def basic_defs Let_def)

lemma articleRequest_category:
  assumes "selectedCategory s = Some category" "category \<noteq> []"
  shows "articleRequest h w s = fetchCategoryArticle h w category"
  using assms by (simp add: articleRequest_def truthyString_def toText_def)

lemma categoryPath_fetchCategoryArticle:
  "list_all categoryPath (snd (fetchCategoryArticle h w category))"
  using fetchCategoryArticle_sent[of h w category] by auto

lemma handle_keeps_category:
  assumes "selectedCategory s = Some category" "category \<noteq> []" "keepsCategory i"
  shows "selectedCategory (handle h i s) = Some category
         \<and> (\<exists>new. requests (handle h i s) = requests s @ new \<and> list_all categoryPath new)"
proof (cases i)
  case (Next w)
  then show ?thesis
    using assms(1) articleRequest_category[OF assms(1,2), of h w]
      categoryPath_fetchCategoryArticle[of h w category]
    by (simp add: selectedCategory_fetchRandomArticle requests_fetchRandomArticle)
next
  case (SubmitSearch query w)
  then have "handle h i s = s\<lparr>searchInput := query\<rparr>"
    using assms(3) by (simp add: handleSearch_empty)
  then show ?thesis using assms(1) by simp
next
  case (CategoryClick c w)
  then show ?thesis using assms(3) by simp
next
  case LogoClick
  then show ?thesis using assms(3) by simp
next
  case (ToggleFavorite t)
  then show ?thesis using assms(1)
    by (simp add: selectedCategory_toggleFavorite requests_toggleFavorite)
next
  case (RemoveFavorite p)
  then show ?thesis using assms(1)
    by (simp add: selectedCategory_removeFavorite requests_removeFavorite)
next
  case (OpenFavorite p)
  then show ?thesis using assms(1)
    by (simp add: selectedCategory_openFavorite requests_openFavorite)
next
  case ToggleFavoritesModal
  then show ?thesis using assms(1)
    by (simp add: selectedCategory_toggleFavoritesModal requests_toggleFavoritesModal)
next
  case ToggleTheme
  then show ?thesis using assms(1)
    by (simp add: selectedCategory_toggleTheme requests_toggleTheme)
qed

lemma run_keeps_category:
  assumes "selectedCategory s = Some category" "category \<noteq> []" "list_all keepsCategory is"
  shows "selectedCategory (run h is s) = Some category
         \<and> (\<exists>new. requests (run h is s) = requests s @ new \<and> list_all categoryPath new)"
  using assms
proof (induction "is" arbitrary: s)
  case Nil
  then show ?case by simp
next
  case (Cons i "is")
  from Cons.prems have k: "keepsCategory i" and ks: "list_all keepsCategory is" by simp_all
  from handle_keeps_category[OF Cons.prems(1,2) k, of h] obtain new where
    h1: "selectedCategory (handle h i s) = Some category"
        "requests (handle h i s) = requests s @ new" "list_all categoryPath new"
    by blast
  from Cons.IH[OF h1(1) Cons.prems(2) ks] obtain new' where
    h2: "selectedCategory (run h is (handle h i s)) = Some category"
        "requests (run h is (handle h i s)) = requests (handle h i s) @ new'"
        "list_all categoryPath new'"
    by blast
  have "requests (run h (i # is) s) = requests s @ (new @ new')"
    using h1(2) h2(2) by simp
  moreover have "list_all categoryPath (new @ new')" using h1(3) h2(3) by simp
  ultimately show ?case using h2(1) by (metis run.simps(2))
qed


section \<open>Category scoping\<close>

text \<open>
  Claim C8.  After a click on a category (a non-empty name), and then any intents that do
  not call \<^verbatim>\<open>clearCategorySelection\<close> or pick another category, the category is still
  selected, a "next" intent sends exactly the requests of \<^verbatim>\<open>fetchCategoryArticle\<close> for
  it, and every request sent since the click belongs to the category path: none is the
  plain random summary.  Once \<^verbatim>\<open>clearCategorySelection\<close> is called, a "next" intent
  sends the plain random summary request and nothing else.
\<close>

theorem category_scoping:
  assumes "category \<noteq> []" and "list_all keepsCategory is"
  shows "selectedCategory (run h is (handleCategoryClick h w0 category s)) = Some category
       \<and> requests (fetchRandomArticle h w (run h is (handleCategoryClick h w0 category s)))
           = requests (run h is (handleCategoryClick h w0 category s))
             @ snd (fetchCategoryArticle h w category)
       \<and> list_all categoryPath (snd (fetchCategoryArticle h w category))
       \<and> list_all categoryPath
           (drop (length (requests s)) (requests (run h is (handleCategoryClick h w0 category s))))
       \<and> requests (fetchRandomArticle h w
            (clearCategorySelection (run h is (handleCategoryClick h w0 category s))))
           = requests (run h is (handleCategoryClick h w0 category s)) @ [RandomSummary]"
proof -
  let ?s1 = "handleCategoryClick h w0 category s"
  let ?s2 = "run h is ?s1"
  have sel1: "selectedCategory ?s1 = Some category"
    by (rule selectedCategory_handleCategoryClick)
  from run_keeps_category[OF sel1 assms, of h] obtain new where
    k: "selectedCategory ?s2 = Some category" "requests ?s2 = requests ?s1 @ new"
       "list_all categoryPath new"
    by blast
  have a: "requests (fetchRandomArticle h w ?s2)
             = requests ?s2 @ snd (fetchCategoryArticle h w category)"
    using articleRequest_category[OF k(1) assms(1), of h w]
    by (simp add: requests_fetchRandomArticle)
  have b: "list_all categoryPath (snd (fetchCategoryArticle h w category))"
    by (rule categoryPath_fetchCategoryArticle)
  have "requests ?s2 = requests s @ (snd (fetchCategoryArticle h w0 category) @ new)"
    using k(2) by (simp add: requests_handleCategoryClick)
  then have "drop (length (requests s)) (requests ?s2)
               = snd (fetchCategoryArticle h w0 category) @ new"
    by simp
  then have c: "list_all categoryPath (drop (length (requests s)) (requests ?s2))"
    using k(3) categoryPath_fetchCategoryArticle[of h w0 category] by simp
  have "articleRequest h w (clearCategorySelection ?s2) = WikipediaService_fetchRandomArticle h w"
    by (simp add: articleRequest_def clearCategorySelection_def truthyString_def)
  then have d: "requests (fetchRandomArticle h w (clearCategorySelection ?s2))
                  = requests ?s2 @ [RandomSummary]"
    by (simp add: requests_fetchRandomArticle WikipediaService_fetchRandomArticle_def
        clearCategorySelection_def)
  show ?thesis using k(1) a b c d by blast
qed

theorem category_scoping_witness:
  "''science'' \<noteq> []
   \<and> list_all keepsCategory
         [Next (exampleWorld (exampleResults 3) 0 0), ToggleFavorite 5, Next offlineWorld]
   \<and> selectedCategory
         (run exampleHost
            [Next (exampleWorld (exampleResults 3) 0 0), ToggleFavorite 5, Next offlineWorld]
            (handleCategoryClick exampleHost offlineWorld ''science'' (exampleState None [])))
       = Some ''science''
   \<and> list_all categoryPath
         (requests
            (run exampleHost
               [Next (exampleWorld (exampleResults 3) 0 0), ToggleFavorite 5, Next offlineWorld]
               (handleCategoryClick exampleHost offlineWorld ''science''
                  (exampleState None []))))"
proof -
  have a: "''science'' \<noteq> []" by simp
  have b: "list_all keepsCategory
         [Next (exampleWorld (exampleResults 3) 0 0), ToggleFavorite 5, Next offlineWorld]"
    by simp
  have c: "length (requests (exampleState None [])) = 0" by (simp add: exampleState_def)
  from category_scoping[OF a b, of exampleHost offlineWorld "exampleState None []"]
  show ?thesis using a b by (simp only: c drop_0) simp
qed

section \<open>Search\<close>

text \<open>
  Claim C5.  When the trimmed value of the search input is empty, \<^verbatim>\<open>handleSearch\<close>
  changes nothing: the whole state, and with it the current article, the selected category
  and what the view shows, is as before.  Otherwise it clears the selected category and
  sends a search for the trimmed query with limit 1 first; when that search finds nothing,
  no other request follows, and the error \<open>No results found\<close> is shown in the error view
  with a status of type \<open>error\<close>, the current article unchanged.
\<close>

theorem search_intent:
  "(trim (searchInput s) = [] \<longrightarrow> handleSearch h w s = s)
   \<and> (trim (searchInput s) \<noteq> [] \<longrightarrow>
        selectedCategory (handleSearch h w s) = None
        \<and> (\<exists>rest. requests (handleSearch h w s)
                     = requests s @ Search (trim (searchInput s)) 1 # rest)
        \<and> (fst (searchArticles w (trim (searchInput s)) 1) = Inr [] \<longrightarrow>
              requests (handleSearch h w s) = requests s @ [Search (trim (searchInput s)) 1]
              \<and> errorVisible (handleSearch h w s)
              \<and> errorMessage (handleSearch h w s) = ''No results found''
              \<and> statusType (handleSearch h w s) = ''error''
              \<and> statusMessage (handleSearch h w s) = ''Search failed - try another term''
              \<and> \<not> skeletonDisplayed (handleSearch h w s)
              \<and> \<not> cardVisible (handleSearch h w s)
              \<and> currentArticle (handleSearch h w s) = currentArticle s))"
proof (intro conjI impI)
  assume "trim (searchInput s) = []"
  then show "handleSearch h w s = s" by (rule handleSearch_empty)
next
  assume q: "trim (searchInput s) \<noteq> []"
  show "selectedCategory (handleSearch h w s) = None"
    using q
    by (simp add: handleSearch_def Let_def clearCategorySelection_def
        split: prod.splits sum.splits list.splits)
  obtain found where
    sa: "searchArticles w (trim (searchInput s)) (Suc 0)
           = (found, [Search (trim (searchInput s)) (Suc 0)])"
    using searchArticles_requests by blast
  show "\<exists>rest. requests (handleSearch h w s) = requests s @ Search (trim (searchInput s)) 1 # rest"
  proof (cases found)
    case (Inl e)
    then show ?thesis using q
      by (simp add: handleSearch_def Let_def sa clearCategorySelection_def)
  next
    case (Inr results)
    show ?thesis
    proof (cases results)
      case Nil
      then show ?thesis using q Inr
        by (simp add: handleSearch_def Let_def sa clearCategorySelection_def)
    next
      case (Cons first others)
      obtain f where f: "fetchArticleByTitle h w (result_title first)
                           = (f, [Summary (encodeURIComponent h (result_title first))])"
        using fetchArticleByTitle_requests by blast
      show ?thesis using q Inr Cons
        by (cases f) (simp_all add: handleSearch_def Let_def sa f clearCategorySelection_def)
    qed
  qed
next
  assume q: "trim (searchInput s) \<noteq> []"
     and e: "fst (searchArticles w (trim (searchInput s)) 1) = Inr []"
  have sa: "searchArticles w (trim (searchInput s)) (Suc 0)
              = (Inr [], [Search (trim (searchInput s)) (Suc 0)])"
    using e searchArticles_requests[of w "trim (searchInput s)" 1] by simp
  have hs: "handleSearch h w s
              = caught ''Search failed - try another term'' (Error ''No results found'')
                  (sent [Search (trim (searchInput s)) 1]
                     (showStatus ''Searching Wikipedia...'' ''info''
                        (showSkeleton (clearCategorySelection s))))"
    using q by (simp add: handleSearch_def Let_def sa)
  show "requests (handleSearch h w s) = requests s @ [Search (trim (searchInput s)) 1]"
    by (simp add: hs clearCategorySelection_def)
  show "errorVisible (handleSearch h w s)" by (simp add: hs basic_defs)
  show "errorMessage (handleSearch h w s) = ''No results found''" by (simp add: hs basic_defs)
  show "statusType (handleSearch h w s) = ''error''" by (simp add: hs basic_defs)
  show "statusMessage (handleSearch h w s) = ''Search failed - try another term''"
    by (simp add: hs basic_defs)
  show "\<not> skeletonDisplayed (handleSearch h w s)" by (simp add: hs basic_defs)
  show "\<not> cardVisible (handleSearch h w s)" by (simp add: hs basic_defs)
  show "currentArticle (handleSearch h w s) = currentArticle s" by (simp add: hs basic_defs)
qed

theorem search_intent_witness:
  "trim [CHR '' '', CHR 0x09, CHR '' ''] = []
   \<and> handleSearch exampleHost (exampleWorld [] 0 0)
        ((exampleState None [])\<lparr>searchInput := [CHR '' '', CHR 0x09, CHR '' '']\<rparr>)
       = (exampleState None [])\<lparr>searchInput := [CHR '' '', CHR 0x09, CHR '' '']\<rparr>
   \<and> trim '' quantum '' = ''quantum''
   \<and> fst (searchArticles (exampleWorld [] 0 0) ''quantum'' 1) = Inr []
   \<and> selectedCategory (handleSearch exampleHost (exampleWorld [] 0 0)
        ((exampleState None [])\<lparr>searchInput := '' quantum ''\<rparr>)) = None
   \<and> requests (handleSearch exampleHost (exampleWorld [] 0 0)
        ((exampleState None [])\<lparr>searchInput := '' quantum ''\<rparr>)) = [Search ''quantum'' 1]
   \<and> errorMessage (handleSearch exampleHost (exampleWorld [] 0 0)
        ((exampleState None [])\<lparr>searchInput := '' quantum ''\<rparr>)) = ''No results found''"
proof -
  have t1: "trim [CHR '' '', CHR 0x09, CHR '' ''] = []"
    by (simp add: trim_def isWhiteSpace_def)
  have t2: "trim '' quantum '' = ''quantum''"
    by (simp add: trim_def isWhiteSpace_def)
  have e: "fst (searchArticles (exampleWorld [] 0 0) ''quantum'' (Suc 0)) = Inr []"
    by (simp add: searchArticles_def exampleWorld_def)
  have r: "requests (exampleState None []) = []" by (simp add: exampleState_def)
  show ?thesis
    using search_intent[of "(exampleState None [])\<lparr>searchInput := [CHR '' '', CHR 0x09, CHR '' '']\<rparr>"
            exampleHost "exampleWorld [] 0 0"]
          search_intent[of "(exampleState None [])\<lparr>searchInput := '' quantum ''\<rparr>"
            exampleHost "exampleWorld [] 0 0"]
    by (simp add: t1 t2 e r)
qed

section \<open>Provider failures\<close>

text \<open>
  Claim C6.  When the provider call of a "next" intent fails, \<^verbatim>\<open>fetchRandomArticle\<close>
  shows a status of type \<open>error\<close> and the error view with the error's message (skeleton
  and card hidden), and leaves the current article, the favorites, the preferences (theme,
  auto-fetch flag, visit count, selected category) and the store as they were.  The requests
  sent are those of that one call, none of them twice.
\<close>

theorem provider_failure_leaves_state:
  assumes "fst (articleRequest h w s) = Inl e"
  shows "statusType (fetchRandomArticle h w s) = ''error''
       \<and> statusMessage (fetchRandomArticle h w s) = ''Failed to fetch article''
       \<and> errorVisible (fetchRandomArticle h w s)
       \<and> errorMessage (fetchRandomArticle h w s) = message e
       \<and> \<not> skeletonDisplayed (fetchRandomArticle h w s)
       \<and> \<not> cardVisible (fetchRandomArticle h w s)
       \<and> currentArticle (fetchRandomArticle h w s) = currentArticle s
       \<and> favorites (fetchRandomArticle h w s) = favorites s
       \<and> theme (fetchRandomArticle h w s) = theme s
       \<and> autoFetchEnabled (fetchRandomArticle h w s) = autoFetchEnabled s
       \<and> visitCount (fetchRandomArticle h w s) = visitCount s
       \<and> selectedCategory (fetchRandomArticle h w s) = selectedCategory s
       \<and> storage (fetchRandomArticle h w s) = storage s
       \<and> requests (fetchRandomArticle h w s) = requests s @ snd (articleRequest h w s)
       \<and> distinct (snd (articleRequest h w s))"
proof -
  obtain rs where ar: "articleRequest h w s = (Inl e, rs)"
    using assms by (cases "articleRequest h w s") simp
  have fr: "fetchRandomArticle h w s
              = caught ''Failed to fetch article'' e
                  (sent rs
                     (showStatus
                        (if truthyString (selectedCategory s)
                         then ''Fetching another '' @ toText (selectedCategory s) @ '' article...''
                         else ''Fetching random article...'')
                        ''info'' (showSkeleton s)))"
    using ar
    by (auto simp: fetchRandomArticle_def articleRequest_def Let_def showSkeleton_def
        split: if_splits)
  have d: "distinct (snd (articleRequest h w s))"
  proof (cases "truthyString (selectedCategory s)")
    case True
    then show ?thesis
      using fetchCategoryArticle_sent[of h w "toText (selectedCategory s)"]
      by (auto simp: articleRequest_def)
  next
    case False
    then show ?thesis
      by (simp add: articleRequest_def WikipediaService_fetchRandomArticle_def)
  qed
  show ?thesis
    using d by (simp add: fr ar basic_defs)
qed

theorem provider_failure_leaves_state_witness:
  "fst (articleRequest exampleHost offlineWorld
          (exampleState (Some (exampleArticle (JNum 7))) [exampleFavorite (JNum 3) 10]))
     = Inl (Error ''Failed to fetch random article'')
   \<and> errorVisible (fetchRandomArticle exampleHost offlineWorld
          (exampleState (Some (exampleArticle (JNum 7))) [exampleFavorite (JNum 3) 10]))
   \<and> statusType (fetchRandomArticle exampleHost offlineWorld
          (exampleState (Some (exampleArticle (JNum 7))) [exampleFavorite (JNum 3) 10]))
     = ''error''
   \<and> currentArticle (fetchRandomArticle exampleHost offlineWorld
          (exampleState (Some (exampleArticle (JNum 7))) [exampleFavorite (JNum 3) 10]))
     = Some (exampleArticle (JNum 7))
   \<and> requests (fetchRandomArticle exampleHost offlineWorld
          (exampleState (Some (exampleArticle (JNum 7))) [exampleFavorite (JNum 3) 10]))
     = [RandomSummary]"
proof -
  let ?s = "exampleState (Some (exampleArticle (JNum 7))) [exampleFavorite (JNum 3) 10]"
  have f: "articleRequest exampleHost offlineWorld ?s
             = (Inl (Error ''Failed to fetch random article''), [RandomSummary])"
    by (simp add: articleRequest_def exampleState_def truthyString_def
        WikipediaService_fetchRandomArticle_def offlineWorld_def)
  then have f1: "fst (articleRequest exampleHost offlineWorld ?s)
             = Inl (Error ''Failed to fetch random article'')"
    by simp
  have c: "currentArticle ?s = Some (exampleArticle (JNum 7))" "requests ?s = []"
    by (simp_all add: exampleState_def)
  show ?thesis
    using provider_failure_leaves_state[OF f1] by (simp add: f c)
qed


section \<open>Reading the store\<close>

lemma parseInt_null: "parseInt ''null'' = None"
  by code_simp

lemma intToString_1: "intToString 1 = ''1''"
  by code_simp

text \<open>
  Claim C7, amended.  With the item missing or unparseable, \<^verbatim>\<open>loadFavorites\<close> returns
  the empty array; with the item missing or anything but \<open>true\<close>, \<^verbatim>\<open>loadAutoFetch\<close>
  returns false; with the item missing or empty, \<^verbatim>\<open>loadTheme\<close> returns \<open>light\<close>, and any
  other stored text it returns as it is; with the item missing or unparseable,
  \<^verbatim>\<open>loadVisitCount\<close> takes the stored count as zero, so it returns 1 and stores \<open>1\<close>.
  Each read is a value of the store alone: none throws or touches the view.
\<close>

theorem store_reads_recover:
  "(store FAVORITES = None \<or> (\<exists>item. store FAVORITES = Some item \<and> JSON_parse item = None) \<longrightarrow>
      loadFavorites JSON_parse store = JsonArr [])
   \<and> (store AUTO_FETCH \<noteq> Some ''true'' \<longrightarrow> loadAutoFetch store = False)
   \<and> (store THEME = None \<or> store THEME = Some [] \<longrightarrow> loadTheme store = ''light'')
   \<and> (store THEME = Some stored \<and> stored \<noteq> [] \<longrightarrow> loadTheme store = stored)
   \<and> (store VISIT_COUNT = None \<or> (\<exists>item. store VISIT_COUNT = Some item \<and> parseInt item = None) \<longrightarrow>
      loadVisitCount store = (1, store(VISIT_COUNT \<mapsto> ''1'')))"
proof (intro conjI impI)
  assume "store FAVORITES = None \<or> (\<exists>item. store FAVORITES = Some item \<and> JSON_parse item = None)"
  then show "loadFavorites JSON_parse store = JsonArr []"
    by (auto simp: loadFavorites_def parseItem_def)
next
  assume "store AUTO_FETCH \<noteq> Some ''true''"
  then show "loadAutoFetch store = False" by (simp add: loadAutoFetch_def)
next
  assume "store THEME = None \<or> store THEME = Some []"
  then show "loadTheme store = ''light''" by (auto simp: loadTheme_def orElse_def)
next
  assume "store THEME = Some stored \<and> stored \<noteq> []"
  then show "loadTheme store = stored" by (simp add: loadTheme_def orElse_def)
next
  assume "store VISIT_COUNT = None \<or> (\<exists>item. store VISIT_COUNT = Some item \<and> parseInt item = None)"
  then have "parseInt (case store VISIT_COUNT of None \<Rightarrow> ''null'' | Some item \<Rightarrow> item) = None"
    by (auto simp: parseInt_null)
  then show "loadVisitCount store = (1, store(VISIT_COUNT \<mapsto> ''1''))"
    by (simp add: loadVisitCount_def Let_def intToString_1)
qed

theorem store_reads_recover_witness:
  "loadFavorites (\<lambda>item. None) (Map.empty(FAVORITES \<mapsto> ''[{'')) = JsonArr []
   \<and> loadFavorites (\<lambda>item. None) Map.empty = JsonArr []
   \<and> loadAutoFetch (Map.empty(AUTO_FETCH \<mapsto> ''yes'')) = False
   \<and> loadTheme Map.empty = ''light''
   \<and> loadTheme (Map.empty(THEME \<mapsto> ''dark'')) = ''dark''
   \<and> parseInt ''many'' = None
   \<and> loadVisitCount (Map.empty(VISIT_COUNT \<mapsto> ''many''))
       = (1, Map.empty(VISIT_COUNT \<mapsto> ''1''))"
proof -
  have p: "parseInt ''many'' = None" by code_simp
  have k: "AUTO_FETCH \<noteq> FAVORITES" "THEME \<noteq> FAVORITES"
    by (simp_all add: AUTO_FETCH_def FAVORITES_def THEME_def)
  show ?thesis
    using store_reads_recover[of "Map.empty(FAVORITES \<mapsto> ''[{'')" "\<lambda>item. None" "''dark''"]
      store_reads_recover[of "Map.empty" "\<lambda>item. None" "''dark''"]
      store_reads_recover[of "Map.empty(AUTO_FETCH \<mapsto> ''yes'')" "\<lambda>item. None" "''dark''"]
      store_reads_recover[of "Map.empty(THEME \<mapsto> ''dark'')" "\<lambda>item. None" "''dark''"]
      store_reads_recover[of "Map.empty(VISIT_COUNT \<mapsto> ''many'')" "\<lambda>item. None" "''dark''"]
    by (simp add: p)
qed

text \<open>
  The claim as stated fails on the visit counter, whose read returns 1 for a missing or
  unparseable item, and on the theme, which is never parsed: any non-empty text comes back.
\<close>

theorem store_reads_counterexample:
  "fst (loadVisitCount Map.empty) = 1
   \<and> fst (loadVisitCount (Map.empty(VISIT_COUNT \<mapsto> ''many''))) = 1
   \<and> loadTheme (Map.empty(THEME \<mapsto> ''%%%'')) = ''%%%''"
proof -
  have p: "parseInt ''many'' = None" by code_simp
  show ?thesis
    by (simp add: loadVisitCount_def Let_def parseInt_null p loadTheme_def orElse_def)
qed

section \<open>Matching a favorite\<close>

lemma currentArticle_displayArticle: "currentArticle (displayArticle h a s) = Some a"
  by (simp add: basic_defs Let_def split: option.splits)

lemma currentArticle_openFavorite:
  "currentArticle (openFavorite h p s) =
     (case find (\<lambda>fav. loose_eq (pageId fav) p) (favorites s) of
        None \<Rightarrow> currentArticle s
      | Some a \<Rightarrow> Some a)"
  by (simp add: openFavorite_def showStatus_def closeFavoritesModal_def
      currentArticle_displayArticle split: option.splits)

lemma loose_123: "loose_eq (JNum 123) (JStr ''123'') \<and> loose_eq (JStr ''123'') (JNum 123)"
  by code_simp

text \<open>
  Claim C10.  \<^verbatim>\<open>removeFavorite\<close> keeps exactly the favorites whose \<^verbatim>\<open>pageId\<close> is not
  loosely equal to its argument (each as often as before), and \<^verbatim>\<open>openFavorite\<close> makes the
  first favorite whose \<^verbatim>\<open>pageId\<close> is loosely equal to its argument the current article,
  or leaves the current article when there is none.  The string \<open>123\<close> is loosely, but
  not strictly, equal to the number 123: as an argument it removes, and opens, a favorite
  stored with the number.
\<close>

theorem favorites_matched_loosely:
  "mset (favorites (removeFavorite h p s))
     = filter_mset (\<lambda>fav. \<not> loose_eq (pageId fav) p) (mset (favorites s))
   \<and> currentArticle (openFavorite h p s) =
       (case find (\<lambda>fav. loose_eq (pageId fav) p) (favorites s) of
          None \<Rightarrow> currentArticle s
        | Some a \<Rightarrow> Some a)
   \<and> loose_eq (JNum 123) (JStr ''123'')
   \<and> \<not> strict_eq (JNum 123) (JStr ''123'')
   \<and> favorites (removeFavorite h (JStr ''123'') (s\<lparr>favorites := [a\<lparr>pageId := JNum 123\<rparr>]\<rparr>)) = []
   \<and> currentArticle (openFavorite h (JStr ''123'') (s\<lparr>favorites := [a\<lparr>pageId := JNum 123\<rparr>]\<rparr>))
       = Some (a\<lparr>pageId := JNum 123\<rparr>)"
proof -
  have r: "mset (favorites (removeFavorite h p s))
     = filter_mset (\<lambda>fav. \<not> loose_eq (pageId fav) p) (mset (favorites s))"
    by (simp add: favorites_removeFavorite mset_sortBy)
  have l: "loose_eq (JNum 123) (JStr ''123'')" using loose_123 by blast
  have e: "favorites (removeFavorite h (JStr ''123'') (s\<lparr>favorites := [a\<lparr>pageId := JNum 123\<rparr>]\<rparr>)) = []"
    using l by (simp add: favorites_removeFavorite)
  have ob: "currentArticle (openFavorite h (JStr ''123'') (s\<lparr>favorites := [a\<lparr>pageId := JNum 123\<rparr>]\<rparr>))
       = Some (a\<lparr>pageId := JNum 123\<rparr>)"
    using l by (simp add: currentArticle_openFavorite)
  show ?thesis
    using r l e ob by (simp add: currentArticle_openFavorite)
qed

end
